theory Spec2Isabelle
  imports Main "HOL-Library.Sublist"
begin

section \<open>The Anaconda repository client (binstar\_client/\_\_init\_\_.py)\<close>

text \<open>
  A shallow embedding of class \<open>Binstar\<close>: the constructor, the response classifier
  \<open>_check_response\<close>, the operations built on it, \<open>download\<close> and \<open>upload\<close>.
  Exceptions are values of type \<open>error\<close> (a result is \<open>error + 'a\<close>, \<open>Inl\<close> the
  exception); the client object is a record that every operation takes and returns;
  the network, the logger and the raise statements of the classifier leave a
  chronological list of events in that record.
\<close>

subsection \<open>Python values\<close>

text \<open>
  What \<open>res.json()\<close> can return: any JSON value, not only an object. Objects keep
  their insertion order, as Python dicts do. (Floats are left out: no code path
  modelled here computes with them.)
\<close>

datatype jvalue =
    JNull
  | JBool bool
  | JInt int
  | JStr string
  | JList "jvalue list"
  | JDict "(string \<times> jvalue) list"

text \<open>An XML element as \<open>xml.etree.ElementTree\<close> exposes it: tag, text, children.\<close>

datatype element = Element (tag: string) (etext: "string option") (children: "element list")

subsection \<open>Exceptions\<close>

text \<open>
  Modelled from the spec: the module \<open>errors\<close> is not among the sources. The spec
  gives the API error as a typed value with the variants Unauthorized, NotFound,
  Conflict, ServerError and the generic error \<open>BinstarError\<close>, of which the others are
  special cases (so \<open>except BinstarError\<close> catches all five), carrying a message and,
  when available, the HTTP status code. \<open>raise_from(x, e)\<close> chains \<open>e\<close> as the
  cause of \<open>x\<close>.
\<close>

datatype errcls = BinstarError | Unauthorized | NotFound | Conflict | ServerError

datatype error =
    ApiError errcls jvalue "int option" "error option"
      \<comment> \<open>class, message, status code, chained cause\<close>
  | RequestException string
      \<comment> \<open>raised by the requests library: the server could not be reached\<close>
  | JSONDecodeError
  | ParseError
  | KeyError string
  | TypeError string
  | AttributeError string
  | UnboundLocalError string
  | UnsupportedOperation string

subsection \<open>Requests, responses, events\<close>

text \<open>
  A response as the code observes it. \<open>json\<close> is what \<open>res.json()\<close> returns
  (\<open>None\<close> when it raises), \<open>xml\<close> what \<open>ET.fromstring(res.text)\<close> returns
  (\<open>None\<close> when it raises \<open>ParseError\<close>); both decoders are library code.
  \<open>headers\<close> is keyed by the header names as the source spells them.
\<close>

record response =
  status_code :: int
  headers :: "string \<rightharpoonup> string"
  text_of :: string
  json :: "jvalue option"
  xml :: "element option"
  request_method :: string
  request_url :: string

text \<open>
  \<open>Session\<close>: sent with \<open>self.session.get/post/...\<close>, so that the session's headers
  are merged into the request; \<open>Requests\<close>: sent with the module-level
  \<open>requests.get/post\<close>, which knows nothing of the session.
\<close>

datatype via = Session | Requests

datatype payload =
    NoData
  | Body string
  | Form jvalue

datatype auth = BasicAuth string string | HTTPKerberosAuth

text \<open>
  A request: how it is sent, and the keyword arguments the source passes
  (\<open>None\<close> or empty where it passes none and the library's default applies).
\<close>

record request =
  via :: via
  http_method :: string
  url :: string
  req_headers :: "string \<rightharpoonup> string"
  params :: "(string \<times> jvalue) list"
  data :: payload
  files :: "(string \<times> string) option"
  auth :: "auth option"
  allow_redirects :: "bool option"
  stream :: bool
  verify :: "bool option"
  timeout :: "int option"

datatype level = WARNING | INFO

datatype event =
    Exchange request "string + response"
      \<comment> \<open>a request handed to the transport, and what came back\<close>
  | Log level string
      \<comment> \<open>a record written to the logger \<open>binstar\<close>\<close>
  | Raise error
      \<comment> \<open>\<open>_check_response\<close> raised this error\<close>

subsection \<open>The client object and its environment\<close>

record client =
  domain :: string
  token :: "string option"
  session_headers :: "string \<rightharpoonup> string"
  session_verify :: bool
  token_warning_sent :: bool
  events :: "event list"

text \<open>A file-like object: its bytes, the read offset, and its descriptor if it has one.\<close>

record fileobj =
  content :: string
  pos :: nat
  fileno :: "nat option"

datatype hash_algorithm = MD5 | SHA256

text \<open>
  What the class uses and the sources do not contain, taken as parameters:
  \<open>__version__\<close>, the comparison \<open>pv(a) > pv(b)\<close> of \<open>pkg_resources\<close>, the table
  \<open>STATUS_CODES\<close>, \<open>jencode\<close>, \<open>quote\<close>, \<open>compute_hash\<close> (which returns the hex
  digest, the base64 digest and the byte count, and leaves the file somewhere),
  Python's \<open>str\<close> on a decoded value, \<open>platform.node()\<close>, whether the package
  \<open>requests_kerberos\<close> can be imported, and the network itself: the transport
  answers a request with a response or raises.
\<close>

record env =
  version :: string
  py_str :: "jvalue \<Rightarrow> string"
  node :: string
  kerberos_installed :: bool
  pv_gt :: "string \<Rightarrow> string \<Rightarrow> bool"
  STATUS_CODES :: "int \<rightharpoonup> string \<times> string"
  jencode :: "jvalue \<Rightarrow> string \<times> (string \<rightharpoonup> string)"
  quote :: "string \<Rightarrow> string"
  compute_hash :: "hash_algorithm \<Rightarrow> fileobj \<Rightarrow> int option \<Rightarrow> (string \<times> string \<times> int) \<times> fileobj"
  transport :: "request \<Rightarrow> string + response"

subsection \<open>String helpers\<close>

definition startswith :: "string \<Rightarrow> string \<Rightarrow> bool" where
  "startswith s p = prefix p s"

definition endswith :: "string \<Rightarrow> string \<Rightarrow> bool" where
  "endswith s p = suffix p s"

text \<open>\<open>'%s' % n\<close> for an integer: its decimal digits, with a minus sign when negative.\<close>

fun str_nat :: "nat \<Rightarrow> string" where
  "str_nat n =
     (if n < 10 then [''0123456789'' ! n]
      else str_nat (n div 10) @ [''0123456789'' ! (n mod 10)])"

definition str_int :: "int \<Rightarrow> string" where
  "str_int i = (if i < 0 then CHR ''-'' # str_nat (nat (- i)) else str_nat (nat i))"

text \<open>Python truthiness of an optional string: \<open>None\<close> and \<open>''\<close> are false.\<close>

fun truthy :: "string option \<Rightarrow> bool" where
  "truthy None = False"
| "truthy (Some s) = (s \<noteq> [])"

text \<open>\<open>'%s' % x\<close> for an optional string: \<open>None\<close> prints as \<open>None\<close>.\<close>

fun str_opt :: "string option \<Rightarrow> string" where
  "str_opt None = ''None''"
| "str_opt (Some s) = s"

text \<open>Truthiness of a decoded value, and \<open>'%s' % v\<close> for one.\<close>

fun truth :: "jvalue \<Rightarrow> bool" where
  "truth JNull = False"
| "truth (JBool b) = b"
| "truth (JInt i) = (i \<noteq> 0)"
| "truth (JStr s) = (s \<noteq> [])"
| "truth (JList xs) = (xs \<noteq> [])"
| "truth (JDict kvs) = (kvs \<noteq> [])"

fun opt_value :: "string option \<Rightarrow> jvalue" where
  "opt_value None = JNull"
| "opt_value (Some s) = JStr s"

subsection \<open>Effects\<close>

text \<open>
  An operation takes the client and returns its result, or the exception it
  raised, with the client as it left it. \<open>and_then\<close> runs the next statement unless
  the one before raised.
\<close>

type_synonym 'a action = "client \<Rightarrow> (error + 'a) \<times> client"

definition and_then :: "'a action \<Rightarrow> ('a \<Rightarrow> 'b action) \<Rightarrow> 'b action" where
  "and_then m f c = (case m c of (Inl x, c') \<Rightarrow> (Inl x, c') | (Inr a, c') \<Rightarrow> f a c')"

definition lift :: "error + 'a \<Rightarrow> 'a action" where
  "lift r c = (r, c)"

text \<open>\<open>try: m except E as x: h x\<close>, where \<open>p\<close> tells the exceptions of class \<open>E\<close>.\<close>

definition try_except :: "(error \<Rightarrow> bool) \<Rightarrow> 'a action \<Rightarrow> (error \<Rightarrow> 'a action) \<Rightarrow> 'a action" where
  "try_except p m h c =
     (case m c of
        (Inl x, c') \<Rightarrow> if p x then h x c' else (Inl x, c')
      | (Inr a, c') \<Rightarrow> (Inr a, c'))"

definition logger :: "level \<Rightarrow> string \<Rightarrow> client \<Rightarrow> client" where
  "logger lvl msg c = c\<lparr>events := events c @ [Log lvl msg]\<rparr>"

text \<open>
  Handing a request to the transport. A request sent through the session carries
  the session's headers, overridden by the call's own.
\<close>

definition prepare :: "client \<Rightarrow> request \<Rightarrow> request" where
  "prepare c q = (case via q of
                    Session \<Rightarrow> q\<lparr>req_headers := session_headers c ++ req_headers q\<rparr>
                  | Requests \<Rightarrow> q)"

definition send :: "env \<Rightarrow> request \<Rightarrow> client \<Rightarrow> (error + response) \<times> client" where
  "send e q c =
     (let q' = prepare c q;
          r = transport e q';
          c' = c\<lparr>events := events c @ [Exchange q' r]\<rparr>
      in case r of
           Inl x \<Rightarrow> (Inl (RequestException x), c')
         | Inr res \<Rightarrow> (Inr res, c'))"

definition new_request :: "via \<Rightarrow> string \<Rightarrow> string \<Rightarrow> request" where
  "new_request v m u =
     \<lparr>via = v, http_method = m, url = u, req_headers = Map.empty, params = [],
      data = NoData, files = None, auth = None, allow_redirects = None,
      stream = False, verify = None, timeout = None\<rparr>"

subsection \<open>\<open>Binstar.__init__\<close>\<close>

definition init :: "env \<Rightarrow> string option \<Rightarrow> string \<Rightarrow> bool \<Rightarrow> client" where
  "init e tok dmn vfy =
     (let user_agent = ''Anaconda-Client/'' @ version e @ '' (+https://anaconda.org)'';
          h0 = [''x-binstar-api-version'' \<mapsto> version e];
          h1 = h0(''User-Agent'' \<mapsto> user_agent,
                  ''Content-Type'' \<mapsto> ''application/json'',
                  ''Accept'' \<mapsto> ''application/json'');
          h2 = (if truthy tok then h1(''Authorization'' \<mapsto> ''token '' @ the tok) else h1);
          d1 = (if endswith dmn ''/'' then butlast dmn else dmn);
          d2 = (if \<not> (startswith d1 ''http://'' \<or> startswith d1 ''https://'')
                then ''https://'' @ d1 else d1)
      in \<lparr>domain = d2, token = tok, session_headers = h2, session_verify = vfy,
          token_warning_sent = False, events = []\<rparr>)"

subsection \<open>\<open>Binstar._check_response\<close>\<close>

text \<open>\<open>data.get('error', msg)\<close>: only a dict has \<open>get\<close>.\<close>

fun get_error :: "jvalue \<Rightarrow> jvalue \<Rightarrow> error + jvalue" where
  "get_error (JDict kvs) msg =
     Inr (case map_of kvs ''error'' of Some v \<Rightarrow> v | None \<Rightarrow> msg)"
| "get_error (JList xs) msg = Inl (AttributeError ''list object has no attribute get'')"
| "get_error (JStr s) msg = Inl (AttributeError ''str object has no attribute get'')"
| "get_error (JInt i) msg = Inl (AttributeError ''int object has no attribute get'')"
| "get_error (JBool b) msg = Inl (AttributeError ''bool object has no attribute get'')"
| "get_error JNull msg = Inl (AttributeError ''NoneType object has no attribute get'')"

text \<open>The chain of \<open>if\<close>/\<open>elif\<close> that picks the class of the exception.\<close>

definition ErrCls :: "int \<Rightarrow> errcls" where
  "ErrCls status =
     (if status = 401 then Unauthorized
      else if status = 404 then NotFound
      else if status = 409 then Conflict
      else if status \<ge> 500 then ServerError
      else BinstarError)"

definition default_msg :: "env \<Rightarrow> response \<Rightarrow> string" where
  "default_msg e res =
     (let (short, long) = (case STATUS_CODES e (status_code res) of
                             Some sl \<Rightarrow> sl | None \<Rightarrow> (''?'', ''Undefined error''))
      in short @ '': '' @ long @ '' (['' @ request_method res @ ''] '' @ request_url res
           @ '' -> '' @ str_int (status_code res) @ '')'')"

definition version_warning :: "string \<Rightarrow> string \<Rightarrow> string" where
  "version_warning api_version v =
     ''The api server is running the binstar-api version '' @ api_version
       @ ''. you are using '' @ v @ [CHR 0x0A]
       @ ''Please update your client with pip install -U binstar or conda update binstar''"

text \<open>The header checks of lines 191 to 204: they only log and set the one-shot flag.\<close>

definition check_headers :: "env \<Rightarrow> response \<Rightarrow> client \<Rightarrow> client" where
  "check_headers e res c =
     (let api_version = (case headers res ''x-binstar-api-version'' of
                           Some v \<Rightarrow> v | None \<Rightarrow> ''0.2.1'');
          c1 = (if pv_gt e api_version (version e)
                then logger WARNING (version_warning api_version (version e)) c else c);
          c2 = (if \<not> token_warning_sent c1 \<and> headers res ''Conda-Token-Warning'' \<noteq> None
                then (logger WARNING
                        (''Token warning: '' @ the (headers res ''Conda-Token-Warning'')) c1)
                       \<lparr>token_warning_sent := True\<rparr>
                else c1);
          c3 = (if headers res ''X-Anaconda-Lockdown'' \<noteq> None
                then logger WARNING ''Anaconda repository is currently in LOCKDOWN mode.'' c2
                else c2)
      in (if headers res ''X-Anaconda-Read-Only'' \<noteq> None
          then logger WARNING ''Anaconda repository is currently in READ ONLY mode.'' c3
          else c3))"

text \<open>
  Lines 206 to 227. The \<open>try\<close> guards \<open>res.json()\<close> only: \<open>data.get\<close> stands in the
  \<open>else\<close> branch, where an exception is not caught.
\<close>

definition classify :: "env \<Rightarrow> response \<Rightarrow> int list \<Rightarrow> error + unit" where
  "classify e res allowed =
     (if status_code res \<notin> set allowed then
        (let msg = JStr (default_msg e res)
         in case (case json res of None \<Rightarrow> Inr msg | Some d \<Rightarrow> get_error d msg) of
              Inl x \<Rightarrow> Inl x
            | Inr msg' \<Rightarrow>
                Inl (ApiError (ErrCls (status_code res)) msg' (Some (status_code res)) None))
      else Inr ())"

definition check_response :: "env \<Rightarrow> response \<Rightarrow> int list \<Rightarrow> client \<Rightarrow> (error + unit) \<times> client" where
  "check_response e res allowed c =
     (let c' = check_headers e res c
      in case classify e res allowed of
           Inl x \<Rightarrow> (Inl x, c'\<lparr>events := events c' @ [Raise x]\<rparr>)
         | Inr u \<Rightarrow> (Inr (), c'))"

subsection \<open>Subscripts on decoded JSON\<close>

text \<open>\<open>res.json()\<close>: the decoded body, or the decoder's exception.\<close>

definition res_json :: "response \<Rightarrow> error + jvalue" where
  "res_json res = (case json res of None \<Rightarrow> Inl JSONDecodeError | Some v \<Rightarrow> Inr v)"

text \<open>\<open>obj[key]\<close> with a string key.\<close>

fun getitem :: "jvalue \<Rightarrow> string \<Rightarrow> error + jvalue" where
  "getitem (JDict kvs) k = (case map_of kvs k of Some v \<Rightarrow> Inr v | None \<Rightarrow> Inl (KeyError k))"
| "getitem (JList xs) k = Inl (TypeError ''list indices must be integers or slices, not str'')"
| "getitem (JStr s) k = Inl (TypeError ''string indices must be integers'')"
| "getitem (JInt i) k = Inl (TypeError ''int object is not subscriptable'')"
| "getitem (JBool b) k = Inl (TypeError ''bool object is not subscriptable'')"
| "getitem JNull k = Inl (TypeError ''NoneType object is not subscriptable'')"

fun dict_set :: "(string \<times> jvalue) list \<Rightarrow> string \<Rightarrow> jvalue \<Rightarrow> (string \<times> jvalue) list" where
  "dict_set [] k v = [(k, v)]"
| "dict_set ((k', v') # kvs) k v = (if k' = k then (k, v) # kvs else (k', v') # dict_set kvs k v)"

text \<open>\<open>obj[key] = v\<close> with a string key.\<close>

fun setitem :: "jvalue \<Rightarrow> string \<Rightarrow> jvalue \<Rightarrow> error + jvalue" where
  "setitem (JDict kvs) k v = Inr (JDict (dict_set kvs k v))"
| "setitem (JList xs) k v = Inl (TypeError ''list indices must be integers or slices, not str'')"
| "setitem (JStr s) k v = Inl (TypeError ''str object does not support item assignment'')"
| "setitem (JInt i) k v = Inl (TypeError ''int object does not support item assignment'')"
| "setitem (JBool b) k v = Inl (TypeError ''bool object does not support item assignment'')"
| "setitem JNull k v = Inl (TypeError ''NoneType object does not support item assignment'')"

subsection \<open>\<open>check_server\<close> and \<open>authentication_type\<close>\<close>

text \<open>The exceptions that \<open>except BinstarError\<close> and \<open>except errors.NotFound\<close> catch.\<close>

fun is_api_error :: "error \<Rightarrow> bool" where
  "is_api_error (ApiError cls m st cause) = True"
| "is_api_error x = False"

fun is_not_found :: "error \<Rightarrow> bool" where
  "is_not_found (ApiError NotFound m st cause) = True"
| "is_not_found x = False"

definition server_not_found :: string where
  "server_not_found = ''API server not found. Please check your API url configuration.''"

definition check_server :: "env \<Rightarrow> unit action" where
  "check_server e c =
     (let msg = server_not_found
      in and_then
           (try_except (\<lambda>x. True) (send e (new_request Session ''HEAD'' (domain c)))
              (\<lambda>x. lift (Inl (ApiError ServerError (JStr msg) None (Some x)))))
           (\<lambda>response.
              try_except is_not_found (check_response e response [200])
                (\<lambda>x. lift (Inl (ApiError ServerError (JStr msg) None (Some x))))) c)"

text \<open>\<open>except BinstarError\<close> catches the API errors of every class and nothing else.\<close>

definition authentication_type :: "env \<Rightarrow> jvalue action" where
  "authentication_type e c =
     (let url = domain c @ ''/authentication-type''
      in and_then (send e (new_request Session ''GET'' url))
           (\<lambda>res.
              try_except is_api_error
                (and_then (check_response e res [200])
                   (\<lambda>_. and_then (lift (res_json res))
                   (\<lambda>res'. lift (getitem res' ''authentication_type''))))
                (\<lambda>x. lift (Inr (JStr ''password'')))) c)"

subsection \<open>Authentication\<close>

text \<open>The keyword arguments of \<open>_authenticate\<close>; \<open>hostname\<close> defaults to the node's name.\<close>

record authenticate_args =
  application :: jvalue
  application_url :: jvalue
  for_user :: jvalue
  scopes :: jvalue
  created_with :: jvalue
  max_age :: jvalue
  strength :: jvalue
  fail_if_already_exists :: jvalue
  hostname :: "string option"

definition format_s :: "env \<Rightarrow> jvalue \<Rightarrow> string" where
  "format_s e v = (case v of JStr s \<Rightarrow> s | _ \<Rightarrow> py_str e v)"

definition authenticate_impl :: "env \<Rightarrow> auth \<Rightarrow> authenticate_args \<Rightarrow> jvalue action" where
  "authenticate_impl e au a c =
     (let url = domain c @ ''/authentications'';
          payload = JDict [(''scopes'', scopes a), (''note'', application a),
                           (''note_url'', application_url a),
                           (''hostname'', JStr (case hostname a of None \<Rightarrow> node e | Some h \<Rightarrow> h)),
                           (''user'', for_user a),
                           (''max-age'', max_age a),
                           (''created_with'', JNull),
                           (''strength'', strength a),
                           (''fail-if-exists'', fail_if_already_exists a)];
          (dat, hdrs) = jencode e payload
      in and_then (send e ((new_request Session ''POST'' url)
                             \<lparr>req_headers := hdrs, data := Body dat, auth := Some au\<rparr>))
           (\<lambda>res. and_then (check_response e res [200])
           (\<lambda>_. and_then (lift (res_json res))
           (\<lambda>res'. and_then (lift (getitem res' ''token''))
           (\<lambda>tok c'. (Inr tok,
                       c'\<lparr>session_headers :=
                            (session_headers c')(''Authorization'' \<mapsto> ''token '' @ format_s e tok)\<rparr>))))) c)"

definition authenticate :: "env \<Rightarrow> string \<Rightarrow> string \<Rightarrow> authenticate_args \<Rightarrow> jvalue action" where
  "authenticate e username password a = authenticate_impl e (BasicAuth username password) a"

definition krb_authenticate :: "env \<Rightarrow> authenticate_args \<Rightarrow> jvalue action" where
  "krb_authenticate e a c =
     (if kerberos_installed e then authenticate_impl e HTTPKerberosAuth a c
      else (Inl (ApiError BinstarError
                   (JStr (''Kerberos authentication requires the requests-kerberos ''
                          @ ''package to be installed:'' @ [CHR 0x0A]
                          @ ''    conda install requests-kerberos'' @ [CHR 0x0A]
                          @ ''or: '' @ [CHR 0x0A]
                          @ ''    pip install requests-kerberos''))
                   None None), c))"

definition list_scopes :: "env \<Rightarrow> jvalue action" where
  "list_scopes e c =
     (let url = domain c @ ''/scopes''
      in and_then (send e (new_request Requests ''GET'' url))
           (\<lambda>res. and_then (check_response e res [200])
           (\<lambda>_. lift (res_json res))) c)"

subsection \<open>Operations that classify with the default \<open>[200]\<close>\<close>

definition authentication :: "env \<Rightarrow> jvalue action" where
  "authentication e c =
     (let url = domain c @ ''/authentication''
      in and_then (send e (new_request Session ''GET'' url))
           (\<lambda>res. and_then (check_response e res [200])
           (\<lambda>_. lift (res_json res))) c)"

definition authentications :: "env \<Rightarrow> jvalue action" where
  "authentications e c =
     (let url = domain c @ ''/authentications''
      in and_then (send e (new_request Session ''GET'' url))
           (\<lambda>res. and_then (check_response e res [200])
           (\<lambda>_. lift (res_json res))) c)"

definition user :: "env \<Rightarrow> string option \<Rightarrow> jvalue action" where
  "user e login c =
     (let url = (if truthy login then domain c @ ''/user/'' @ str_opt login
                 else domain c @ ''/user'')
      in and_then (send e ((new_request Session ''GET'' url)\<lparr>verify := Some (session_verify c)\<rparr>))
           (\<lambda>res. and_then (check_response e res [200])
           (\<lambda>_. lift (res_json res))) c)"

definition package :: "env \<Rightarrow> string \<Rightarrow> string \<Rightarrow> jvalue action" where
  "package e login package_name c =
     (let url = domain c @ ''/package/'' @ login @ ''/'' @ package_name
      in and_then (send e (new_request Session ''GET'' url))
           (\<lambda>res. and_then (check_response e res [200])
           (\<lambda>_. lift (res_json res))) c)"

definition package_collaborators :: "env \<Rightarrow> string \<Rightarrow> string \<Rightarrow> jvalue action" where
  "package_collaborators e owner package_name c =
     (let url = domain c @ ''/packages/'' @ owner @ ''/'' @ package_name @ ''/collaborators''
      in and_then (send e (new_request Session ''GET'' url))
           (\<lambda>res. and_then (check_response e res [200])
           (\<lambda>_. lift (res_json res))) c)"

definition release :: "env \<Rightarrow> string \<Rightarrow> string \<Rightarrow> string \<Rightarrow> jvalue action" where
  "release e login package_name version_arg c =
     (let url = domain c @ ''/release/'' @ login @ ''/'' @ package_name @ ''/'' @ version_arg
      in and_then (send e (new_request Session ''GET'' url))
           (\<lambda>res. and_then (check_response e res [200])
           (\<lambda>_. lift (res_json res))) c)"

definition distribution :: "env \<Rightarrow> string \<Rightarrow> string \<Rightarrow> string \<Rightarrow> string option \<Rightarrow> jvalue action" where
  "distribution e login package_name rel basename c =
     (let url = domain c @ ''/dist/'' @ login @ ''/'' @ package_name @ ''/'' @ rel
                  @ ''/'' @ str_opt basename
      in and_then (send e (new_request Session ''GET'' url))
           (\<lambda>res. and_then (check_response e res [200])
           (\<lambda>_. lift (res_json res))) c)"

definition remove_dist ::
  "env \<Rightarrow> string \<Rightarrow> string \<Rightarrow> string \<Rightarrow> string option \<Rightarrow> string option \<Rightarrow> jvalue action" where
  "remove_dist e login package_name rel basename ident c =
     (if truthy basename then
        (let url = domain c @ ''/dist/'' @ login @ ''/'' @ package_name @ ''/'' @ rel
                     @ ''/'' @ str_opt basename
         in and_then (send e (new_request Session ''DELETE'' url))
              (\<lambda>res. and_then (check_response e res [200])
              (\<lambda>_. lift (res_json res))) c)
      else if truthy ident then
        (let url = domain c @ ''/dist/'' @ login @ ''/'' @ package_name @ ''/'' @ rel
                     @ ''/-/'' @ str_opt ident
         in and_then (send e (new_request Session ''DELETE'' url))
              (\<lambda>res. and_then (check_response e res [200])
              (\<lambda>_. lift (res_json res))) c)
      else (Inl (TypeError ''method remove_dist expects either 'basename' or '_id' arguments''),
            c))"

definition user_packages ::
  "env \<Rightarrow> string option \<Rightarrow> string option \<Rightarrow> string option \<Rightarrow> string option \<Rightarrow> string option
     \<Rightarrow> jvalue action" where
  "user_packages e login platform package_type type_arg access c =
     (let url = (if truthy login then domain c @ ''/packages/'' @ str_opt login
                 else domain c @ ''/packages'');
          arguments = (if truthy platform then [(''platform'', opt_value platform)] else [])
                    @ (if truthy package_type then [(''package_type'', opt_value package_type)] else [])
                    @ (if truthy type_arg then [(''type'', opt_value type_arg)] else [])
                    @ (if truthy access then [(''access'', opt_value access)] else [])
      in and_then (send e ((new_request Session ''GET'' url)\<lparr>params := arguments\<rparr>))
           (\<lambda>res. and_then (check_response e res [200])
           (\<lambda>_. lift (res_json res))) c)"

definition all_packages :: "env \<Rightarrow> string option \<Rightarrow> jvalue action" where
  "all_packages e modified_after c =
     (let url = domain c @ ''/package_listing'';
          dat = JDict [(''modified_after'',
                        (if truthy modified_after then opt_value modified_after else JStr []))]
      in and_then (send e ((new_request Session ''GET'' url)\<lparr>data := Form dat\<rparr>))
           (\<lambda>res. and_then (check_response e res [200])
           (\<lambda>_. lift (res_json res))) c)"

text \<open>
  \<open>add_package\<close>: \<open>package_type\<close> is \<open>None\<close> or an enumeration member, given by its
  \<open>value\<close>; \<open>attrs or {}\<close> keeps a truthy \<open>attrs\<close>, into which the three items are
  then assigned.
\<close>

definition add_package ::
  "env \<Rightarrow> string \<Rightarrow> string \<Rightarrow> jvalue \<Rightarrow> jvalue \<Rightarrow> bool \<Rightarrow> jvalue \<Rightarrow> jvalue \<Rightarrow> jvalue
     \<Rightarrow> string option \<Rightarrow> jvalue action" where
  "add_package e login package_name summary license public license_url license_family
               attrs package_type c =
     (let url = domain c @ ''/package/'' @ login @ ''/'' @ package_name;
          attrs0 = (if truth attrs then attrs else JDict [])
      in and_then (lift (setitem attrs0 ''summary'' summary))
         (\<lambda>attrs1. and_then (lift (setitem attrs1 ''package_types'' (JList [opt_value package_type])))
         (\<lambda>attrs2. and_then (lift (setitem attrs2 ''license''
                                      (JDict [(''name'', license), (''url'', license_url),
                                              (''family'', license_family)])))
         (\<lambda>attrs3.
            let payload = JDict [(''public'', JBool public), (''publish'', JBool False),
                                 (''public_attrs'', attrs3)];
                (dat, hdrs) = jencode e payload
            in and_then (send e ((new_request Session ''POST'' url)
                                   \<lparr>req_headers := hdrs, data := Body dat\<rparr>))
               (\<lambda>res. and_then (check_response e res [200])
               (\<lambda>_. lift (res_json res)))))) c)"

definition update_package ::
  "env \<Rightarrow> string \<Rightarrow> string \<Rightarrow> (string \<times> jvalue) list \<Rightarrow> jvalue action" where
  "update_package e login package_name attrs c =
     (let url = domain c @ ''/package/'' @ login @ ''/'' @ package_name;
          payload = JDict [(''public_attrs'', JDict attrs)];
          (dat, hdrs) = jencode e payload
      in and_then (send e ((new_request Session ''PATCH'' url)
                             \<lparr>req_headers := hdrs, data := Body dat\<rparr>))
           (\<lambda>res. and_then (check_response e res [200])
           (\<lambda>_. lift (res_json res))) c)"

definition update_release ::
  "env \<Rightarrow> string \<Rightarrow> string \<Rightarrow> string \<Rightarrow> (string \<times> jvalue) list \<Rightarrow> jvalue action" where
  "update_release e login package_name version_arg attrs c =
     (let url = domain c @ ''/release/'' @ login @ ''/'' @ package_name @ ''/'' @ version_arg;
          payload = JDict [(''public_attrs'', JDict attrs)];
          (dat, hdrs) = jencode e payload
      in and_then (send e ((new_request Session ''PATCH'' url)
                             \<lparr>req_headers := hdrs, data := Body dat\<rparr>))
           (\<lambda>res. and_then (check_response e res [200])
           (\<lambda>_. lift (res_json res))) c)"

text \<open>\<open>payload.update(release_attrs)\<close>: each item of the second dict is assigned into the first.\<close>

fun dict_update :: "(string \<times> jvalue) list \<Rightarrow> (string \<times> jvalue) list \<Rightarrow> (string \<times> jvalue) list" where
  "dict_update kvs [] = kvs"
| "dict_update kvs ((k, v) # items) = dict_update (dict_set kvs k v) items"

definition add_release ::
  "env \<Rightarrow> string \<Rightarrow> string \<Rightarrow> string \<Rightarrow> jvalue \<Rightarrow> jvalue \<Rightarrow> (string \<times> jvalue) list
     \<Rightarrow> jvalue action" where
  "add_release e login package_name version_arg requirements announce release_attrs c =
     (let url = domain c @ ''/release/'' @ login @ ''/'' @ package_name @ ''/'' @ version_arg;
          payload = JDict (dict_update [(''requirements'', requirements),
                                        (''announce'', announce),
                                        (''description'', JNull)] release_attrs);
          (dat, hdrs) = jencode e payload
      in and_then (send e ((new_request Session ''POST'' url)
                             \<lparr>req_headers := hdrs, data := Body dat\<rparr>))
           (\<lambda>res. and_then (check_response e res [200])
           (\<lambda>_. lift (res_json res))) c)"

definition search :: "env \<Rightarrow> jvalue \<Rightarrow> string option \<Rightarrow> jvalue \<Rightarrow> jvalue action" where
  "search e query package_type platform c =
     (let url = domain c @ ''/search''
      in and_then (send e ((new_request Session ''GET'' url)
                             \<lparr>params := [(''name'', query), (''type'', opt_value package_type),
                                         (''platform'', platform)]\<rparr>))
           (\<lambda>res. and_then (check_response e res [200])
           (\<lambda>_. lift (res_json res))) c)"

definition user_licenses :: "env \<Rightarrow> jvalue action" where
  "user_licenses e c =
     (let url = domain c @ ''/license''
      in and_then (send e (new_request Session ''GET'' url))
           (\<lambda>res. and_then (check_response e res [200])
           (\<lambda>_. lift (res_json res))) c)"

subsection \<open>Operations that classify with \<open>[201]\<close>\<close>

definition remove_authentication :: "env \<Rightarrow> string option \<Rightarrow> string option \<Rightarrow> unit action" where
  "remove_authentication e auth_name organization c =
     (let url = (if truthy auth_name then
                   (if truthy organization then
                      domain c @ ''/authentications/org/'' @ str_opt organization
                        @ ''/name/'' @ str_opt auth_name
                    else domain c @ ''/authentications/name/'' @ str_opt auth_name)
                 else domain c @ ''/authentications'')
      in and_then (send e (new_request Session ''DELETE'' url))
           (\<lambda>res. check_response e res [201]) c)"

definition package_add_collaborator :: "env \<Rightarrow> string \<Rightarrow> string \<Rightarrow> string \<Rightarrow> unit action" where
  "package_add_collaborator e owner package_name collaborator c =
     (let url = domain c @ ''/packages/'' @ owner @ ''/'' @ package_name
                  @ ''/collaborators/'' @ collaborator
      in and_then (send e (new_request Session ''PUT'' url))
           (\<lambda>res. check_response e res [201]) c)"

definition package_remove_collaborator :: "env \<Rightarrow> string \<Rightarrow> string \<Rightarrow> string \<Rightarrow> unit action" where
  "package_remove_collaborator e owner package_name collaborator c =
     (let url = domain c @ ''/packages/'' @ owner @ ''/'' @ package_name
                  @ ''/collaborators/'' @ collaborator
      in and_then (send e (new_request Session ''DELETE'' url))
           (\<lambda>res. check_response e res [201]) c)"

definition remove_package :: "env \<Rightarrow> string \<Rightarrow> string \<Rightarrow> unit action" where
  "remove_package e username package_name c =
     (let url = domain c @ ''/package/'' @ username @ ''/'' @ package_name
      in and_then (send e (new_request Session ''DELETE'' url))
           (\<lambda>res. check_response e res [201]) c)"

definition remove_release :: "env \<Rightarrow> string \<Rightarrow> string \<Rightarrow> string \<Rightarrow> unit action" where
  "remove_release e username package_name version_arg c =
     (let url = domain c @ ''/release/'' @ username @ ''/'' @ package_name @ ''/'' @ version_arg
      in and_then (send e (new_request Session ''DELETE'' url))
           (\<lambda>res. check_response e res [201]) c)"

subsection \<open>\<open>download\<close>\<close>

text \<open>
  The result is the response to stream from, or \<open>None\<close>. The last \<open>else\<close> is the
  function's end, where Python returns \<open>None\<close>.
\<close>

definition download ::
  "env \<Rightarrow> string \<Rightarrow> string \<Rightarrow> string \<Rightarrow> string \<Rightarrow> string option \<Rightarrow> response option action" where
  "download e login package_name rel basename md5 c =
     (let url = domain c @ ''/download/'' @ login @ ''/'' @ package_name @ ''/'' @ rel
                  @ ''/'' @ basename;
          hdrs = (if truthy md5 then [''ETag'' \<mapsto> the md5] else Map.empty)
      in and_then (send e ((new_request Session ''GET'' url)
                             \<lparr>req_headers := hdrs, allow_redirects := Some False\<rparr>))
           (\<lambda>res. and_then (check_response e res [200, 302, 304])
           (\<lambda>_. if status_code res = 200 then lift (Inr (Some res))
                else if status_code res = 304 then lift (Inr None)
                else if status_code res = 302 then
                  (case headers res ''location'' of
                     None \<Rightarrow> lift (Inl (KeyError ''location''))
                   | Some location \<Rightarrow>
                       and_then (send e ((new_request Requests ''GET'' location)\<lparr>stream := True\<rparr>))
                         (\<lambda>res2. lift (Inr (Some res2))))
                else lift (Inr None))) c)"

subsection \<open>\<open>upload\<close>\<close>

text \<open>
  \<open>distribution_type\<close> is a string, or an enumeration member whose \<open>value\<close> is one.
  \<open>attrs\<close> is any value (\<open>JNull\<close> for \<open>None\<close>).
\<close>

datatype disttype = AsStr string | AsEnum string

fun disttype_str :: "disttype \<Rightarrow> string" where
  "disttype_str (AsStr s) = s"
| "disttype_str (AsEnum v) = v"

fun attrs_dict :: "jvalue \<Rightarrow> error + jvalue" where
  "attrs_dict JNull = Inr (JDict [])"
| "attrs_dict (JDict kvs) = Inr (JDict kvs)"
| "attrs_dict v = Inl (TypeError ''argument attrs must be a dictionary'')"

text \<open>\<open>s3url.startswith(self.domain)\<close>: only a string has \<open>startswith\<close>.\<close>

fun request_method_for :: "jvalue \<Rightarrow> string \<Rightarrow> error + via \<times> string" where
  "request_method_for (JStr s3url) dmn =
     Inr (if startswith s3url dmn then Session else Requests, s3url)"
| "request_method_for v dmn = Inl (AttributeError ''object has no attribute startswith'')"

text \<open>\<open>xml_error.find('Code')\<close>: the first child with that tag.\<close>

definition find_child :: "element \<Rightarrow> string \<Rightarrow> element option" where
  "find_child el t = List.find (\<lambda>ch. tag ch = t) (children el)"

text \<open>
  Lines 598 to 604, entered when the storage answered with a status other than 201:
  they always end in an exception.
\<close>

definition storage_failure :: "response \<Rightarrow> jvalue action" where
  "storage_failure s3res c =
     (let c1 = logger INFO (text_of s3res) c
      in case xml s3res of
           None \<Rightarrow> (Inl ParseError, c1)
         | Some xml_error \<Rightarrow>
             (case find_child xml_error ''Code'' of
                None \<Rightarrow> (Inl (AttributeError ''NoneType object has no attribute text''), c1)
              | Some code \<Rightarrow>
                  (let msg_tail = (if etext code = Some ''InvalidDigest''
                                   then '' The Content-MD5 or checksum value is not valid.''
                                   else [])
                   in (Inl (ApiError BinstarError (JStr (''Error uploading package!'' @ msg_tail))
                              (Some (status_code s3res)) None), c1))))"

text \<open>
  Lines 578 to 584. \<open>b64md5\<close> is a local variable that only the first branch binds:
  \<open>None\<close> stands for the unbound variable. The second branch seeks to the end, reads
  the offset and seeks back.
\<close>

definition md5_and_size ::
  "env \<Rightarrow> fileobj \<Rightarrow> string option \<Rightarrow> int option \<Rightarrow> string option \<times> int option \<times> fileobj" where
  "md5_and_size e fd md5 size_arg =
     (if md5 = None then
        (let ((hexmd5, b64md5, sz), fd') = compute_hash e MD5 fd size_arg
         in (Some b64md5, Some sz, fd'))
      else if size_arg = None then
        (let spos = pos fd;
             fd1 = fd\<lparr>pos := length (content fd)\<rparr>;
             sz = int (pos fd1) - int spos;
             fd2 = fd1\<lparr>pos := spos\<rparr>
         in (None, Some sz, fd2))
      else (None, size_arg, fd))"

fun size_value :: "int option \<Rightarrow> jvalue" where
  "size_value None = JNull"
| "size_value (Some n) = JInt n"

text \<open>Lines 586 and 587: the two assignments into the form-field map.\<close>

definition inject_fields :: "jvalue \<Rightarrow> int option \<Rightarrow> string option \<Rightarrow> error + jvalue" where
  "inject_fields s3data sz b64md5 =
     (case setitem s3data ''Content-Length'' (size_value sz) of
        Inl x \<Rightarrow> Inl x
      | Inr s3data1 \<Rightarrow>
          (case b64md5 of
             None \<Rightarrow> Inl (UnboundLocalError ''b64md5'')
           | Some b \<Rightarrow> setitem s3data1 ''Content-MD5'' (JStr b)))"

text \<open>\<open>os.fstat(fd.fileno()).st_size\<close>: the progress bar's total.\<close>

definition file_size :: "fileobj \<Rightarrow> error + nat" where
  "file_size fd = (case fileno fd of
                     None \<Rightarrow> Inl (UnsupportedOperation ''fileno'')
                   | Some n \<Rightarrow> Inr (length (content fd)))"

text \<open>
  The body of \<open>upload\<close> in its three phases, each given the value of
  \<open>self.domain\<close>. Staging (lines 550 to 573) ends with the decoded stage response
  and the file as hashing left it.
\<close>

definition upload_stage ::
  "env \<Rightarrow> string \<Rightarrow> string \<Rightarrow> string \<Rightarrow> string \<Rightarrow> string \<Rightarrow> fileobj \<Rightarrow> disttype \<Rightarrow> string
     \<Rightarrow> string option \<Rightarrow> int option \<Rightarrow> jvalue \<Rightarrow> jvalue \<Rightarrow> jvalue
     \<Rightarrow> (jvalue \<times> fileobj) action" where
  "upload_stage e dmn login package_name rel basename fd distribution_type description
                sha256 size_arg dependencies attrs channels =
     (let url = dmn @ ''/stage/'' @ login @ ''/'' @ package_name @ ''/'' @ rel
                  @ ''/'' @ quote e basename
      in and_then (lift (attrs_dict attrs))
      (\<lambda>attrs1.
         let (sha, fd1) = (case sha256 of
                             Some h \<Rightarrow> (h, fd)
                           | None \<Rightarrow> (let ((hex, b64, n), fd') = compute_hash e SHA256 fd size_arg
                                      in (hex, fd')));
             payload = JDict [(''distribution_type'', JStr (disttype_str distribution_type)),
                              (''description'', JStr description),
                              (''attrs'', attrs1),
                              (''dependencies'', dependencies),
                              (''channels'', channels),
                              (''sha256'', JStr sha)];
             (dat, hdrs) = jencode e payload
         in and_then (send e ((new_request Session ''POST'' url)
                                \<lparr>req_headers := hdrs, data := Body dat\<rparr>))
         (\<lambda>res. and_then (check_response e res [200])
         (\<lambda>_. and_then (lift (res_json res))
         (\<lambda>obj. lift (Inr (obj, fd1)))))))"

text \<open>
  The transfer (lines 575 to 596), given also the value of
  \<open>self.session.verify\<close>, ends with the storage's response, whatever its status.
\<close>

definition upload_transfer ::
  "env \<Rightarrow> string \<Rightarrow> bool \<Rightarrow> string \<Rightarrow> fileobj \<Rightarrow> string option \<Rightarrow> int option \<Rightarrow> jvalue
     \<Rightarrow> response action" where
  "upload_transfer e dmn vfy basename fd1 md5 size_arg obj =
     and_then (lift (getitem obj ''post_url''))
     (\<lambda>s3url. and_then (lift (getitem obj ''form_data''))
     (\<lambda>s3data.
        let (b64md5, sz, fd2) = md5_and_size e fd1 md5 size_arg
        in and_then (lift (inject_fields s3data sz b64md5))
        (\<lambda>s3data2. and_then (lift (request_method_for s3url dmn))
        (\<lambda>(request_method, target). and_then (lift (file_size fd2))
        (\<lambda>total. send e ((new_request request_method ''POST'' target)
                            \<lparr>data := Form s3data2,
                             files := Some (basename, drop (pos fd2) (content fd2)),
                             verify := Some vfy,
                             timeout := Some (10 * 60 * 60)\<rparr>))))))"

text \<open>The commit (lines 606 to 612).\<close>

definition upload_commit ::
  "env \<Rightarrow> string \<Rightarrow> string \<Rightarrow> string \<Rightarrow> string \<Rightarrow> string \<Rightarrow> jvalue \<Rightarrow> jvalue action" where
  "upload_commit e dmn login package_name rel basename obj =
     (let url = dmn @ ''/commit/'' @ login @ ''/'' @ package_name @ ''/'' @ rel
                  @ ''/'' @ quote e basename
      in and_then (lift (getitem obj ''dist_id''))
         (\<lambda>dist_id.
            let (dat, hdrs) = jencode e (JDict [(''dist_id'', dist_id)])
            in and_then (send e ((new_request Session ''POST'' url)
                                   \<lparr>req_headers := hdrs, data := Body dat\<rparr>))
               (\<lambda>res. and_then (check_response e res [200])
               (\<lambda>_. lift (res_json res)))))"

definition upload ::
  "env \<Rightarrow> string \<Rightarrow> string \<Rightarrow> string \<Rightarrow> string \<Rightarrow> fileobj \<Rightarrow> disttype \<Rightarrow> string
     \<Rightarrow> string option \<Rightarrow> string option \<Rightarrow> int option \<Rightarrow> jvalue \<Rightarrow> jvalue \<Rightarrow> jvalue
     \<Rightarrow> jvalue action" where
  "upload e login package_name rel basename fd distribution_type description
          md5 sha256 size_arg dependencies attrs channels c =
     and_then (upload_stage e (domain c) login package_name rel basename fd distribution_type
                 description sha256 size_arg dependencies attrs channels)
     (\<lambda>(obj, fd1).
        and_then (upload_transfer e (domain c) (session_verify c) basename fd1 md5 size_arg obj)
     (\<lambda>s3res. if status_code s3res \<noteq> 201 then storage_failure s3res
              else upload_commit e (domain c) login package_name rel basename obj)) c"

subsection \<open>Calls on one client\<close>

text \<open>
  The operations above as values, so that a caller's sequence of calls on one
  client is a list. An exception ends the call that raised it, not the client:
  the next call finds the client as the failed one left it.
\<close>

datatype call =
    CheckServer
  | AuthenticationType
  | KrbAuthenticate authenticate_args
  | Authenticate string string authenticate_args
  | ListScopes
  | Authentication
  | Authentications
  | User "string option"
  | Package string string
  | PackageCollaborators string string
  | Release string string string
  | Distribution string string string "string option"
  | UserPackages "string option" "string option" "string option" "string option" "string option"
  | AllPackages "string option"
  | AddPackage string string jvalue jvalue bool jvalue jvalue jvalue "string option"
  | UpdatePackage string string "(string \<times> jvalue) list"
  | UpdateRelease string string string "(string \<times> jvalue) list"
  | AddRelease string string string jvalue jvalue "(string \<times> jvalue) list"
  | Search jvalue "string option" jvalue
  | UserLicenses
  | RemoveDist string string string "string option" "string option"
  | RemoveAuthentication "string option" "string option"
  | PackageAddCollaborator string string string
  | PackageRemoveCollaborator string string string
  | RemovePackage string string
  | RemoveRelease string string string
  | Download string string string string "string option"
  | Upload string string string string fileobj disttype string
      "string option" "string option" "int option" jvalue jvalue jvalue

datatype outcome = RNone | RJson jvalue | RResponse response

definition returning :: "('a \<Rightarrow> outcome) \<Rightarrow> 'a action \<Rightarrow> outcome action" where
  "returning f m = and_then m (\<lambda>a. lift (Inr (f a)))"

fun stream_outcome :: "response option \<Rightarrow> outcome" where
  "stream_outcome None = RNone"
| "stream_outcome (Some res) = RResponse res"

fun perform :: "env \<Rightarrow> call \<Rightarrow> outcome action" where
  "perform e CheckServer = returning (\<lambda>_. RNone) (check_server e)"
| "perform e AuthenticationType = returning RJson (authentication_type e)"
| "perform e (KrbAuthenticate a) = returning RJson (krb_authenticate e a)"
| "perform e (Authenticate u pw a) = returning RJson (authenticate e u pw a)"
| "perform e ListScopes = returning RJson (list_scopes e)"
| "perform e Authentication = returning RJson (authentication e)"
| "perform e Authentications = returning RJson (authentications e)"
| "perform e (User l) = returning RJson (user e l)"
| "perform e (Package l p) = returning RJson (package e l p)"
| "perform e (PackageCollaborators l p) = returning RJson (package_collaborators e l p)"
| "perform e (Release l p v) = returning RJson (release e l p v)"
| "perform e (Distribution l p r b) = returning RJson (distribution e l p r b)"
| "perform e (UserPackages l pf pt ty ac) = returning RJson (user_packages e l pf pt ty ac)"
| "perform e (AllPackages ma) = returning RJson (all_packages e ma)"
| "perform e (AddPackage l p sm li pb lu lf at pt) =
     returning RJson (add_package e l p sm li pb lu lf at pt)"
| "perform e (UpdatePackage l p at) = returning RJson (update_package e l p at)"
| "perform e (UpdateRelease l p v at) = returning RJson (update_release e l p v at)"
| "perform e (AddRelease l p v rq an at) = returning RJson (add_release e l p v rq an at)"
| "perform e (Search qu pt pf) = returning RJson (search e qu pt pf)"
| "perform e UserLicenses = returning RJson (user_licenses e)"
| "perform e (RemoveDist l p r b i) = returning RJson (remove_dist e l p r b i)"
| "perform e (RemoveAuthentication a g) = returning (\<lambda>_. RNone) (remove_authentication e a g)"
| "perform e (PackageAddCollaborator l p k) =
     returning (\<lambda>_. RNone) (package_add_collaborator e l p k)"
| "perform e (PackageRemoveCollaborator l p k) =
     returning (\<lambda>_. RNone) (package_remove_collaborator e l p k)"
| "perform e (RemovePackage l p) = returning (\<lambda>_. RNone) (remove_package e l p)"
| "perform e (RemoveRelease l p v) = returning (\<lambda>_. RNone) (remove_release e l p v)"
| "perform e (Download l p r b m) = returning stream_outcome (download e l p r b m)"
| "perform e (Upload l p r b fd dt ds m h sz deps at ch) =
     returning RJson (upload e l p r b fd dt ds m h sz deps at ch)"

fun perform_all :: "env \<Rightarrow> call list \<Rightarrow> client \<Rightarrow> client" where
  "perform_all e [] c = c"
| "perform_all e (x # xs) c = perform_all e xs (snd (perform e x c))"

subsection \<open>Reading the events of a run\<close>

text \<open>The events a call added: those after the ones the client already had.\<close>

definition new_events :: "client \<Rightarrow> client \<Rightarrow> event list" where
  "new_events c c' = drop (length (events c)) (events c')"

fun exchanges :: "event list \<Rightarrow> (request \<times> (string + response)) list" where
  "exchanges [] = []"
| "exchanges (Exchange q r # evs) = (q, r) # exchanges evs"
| "exchanges (ev # evs) = exchanges evs"

fun is_response :: "event \<Rightarrow> bool" where
  "is_response (Exchange q (Inr res)) = True"
| "is_response ev = False"

fun is_token_warning :: "event \<Rightarrow> bool" where
  "is_token_warning (Log lvl msg) = (lvl = WARNING \<and> startswith msg ''Token warning: '')"
| "is_token_warning ev = False"

definition token_warnings :: "event list \<Rightarrow> nat" where
  "token_warnings evs = length (filter is_token_warning evs)"



text \<open>The requests that carried a file: the storage transfers.\<close>

definition transfers :: "event list \<Rightarrow> request list" where
  "transfers evs = filter (\<lambda>q. files q \<noteq> None) (map fst (exchanges evs))"

definition header :: "string \<Rightarrow> request \<Rightarrow> string option" where
  "header k q = req_headers q k"

text \<open>The status of each exchange's response, \<open>None\<close> where the transport raised.\<close>

fun status_of :: "request \<times> (string + response) \<Rightarrow> int option" where
  "status_of (q, Inl x) = None"
| "status_of (q, Inr res) = Some (status_code res)"

definition statuses :: "event list \<Rightarrow> int option list" where
  "statuses evs = map status_of (exchanges evs)"

fun is_raise :: "event \<Rightarrow> bool" where
  "is_raise (Raise x) = True"
| "is_raise ev = False"

text \<open>
  Three stages of a client's history with respect to the token warning: no
  response received yet; the first response received and not yet classified;
  the warning logged, once, after the first response and before the next.
\<close>

definition calm :: "event list \<Rightarrow> bool" where
  "calm evs = (\<forall>ev\<in>set evs. \<not> is_response ev \<and> \<not> is_token_warning ev)"

definition quiet :: "client \<Rightarrow> bool" where
  "quiet c = (\<not> token_warning_sent c \<and> calm (events c))"


definition warned :: "client \<Rightarrow> bool" where
  "warned c = (token_warning_sent c \<and>
     (\<exists>pre ev mid rest. events c = pre @ ev # mid @ rest \<and> is_response ev \<and> calm pre \<and>
        (\<forall>x\<in>set mid. \<not> is_response x) \<and> token_warnings mid = 1 \<and>
        (rest = [] \<or> is_response (hd rest)) \<and> token_warnings rest = 0))"

definition settled :: "client \<Rightarrow> bool" where
  "settled c = (quiet c \<or> warned c)"

text \<open>
  The log records that the header checks of \<open>_check_response\<close> write for a
  response, given the one-shot flag: the list view of \<open>check_headers\<close>.
\<close>

definition header_logs :: "env \<Rightarrow> response \<Rightarrow> bool \<Rightarrow> event list" where
  "header_logs e res sent =
     (let api_version = (case headers res ''x-binstar-api-version'' of
                           Some v \<Rightarrow> v | None \<Rightarrow> ''0.2.1'')
      in (if pv_gt e api_version (version e)
          then [Log WARNING (version_warning api_version (version e))] else [])
       @ (if \<not> sent \<and> headers res ''Conda-Token-Warning'' \<noteq> None
          then [Log WARNING (''Token warning: '' @ the (headers res ''Conda-Token-Warning''))]
          else [])
       @ (if headers res ''X-Anaconda-Lockdown'' \<noteq> None
          then [Log WARNING ''Anaconda repository is currently in LOCKDOWN mode.''] else [])
       @ (if headers res ''X-Anaconda-Read-Only'' \<noteq> None
          then [Log WARNING ''Anaconda repository is currently in READ ONLY mode.''] else []))"

text \<open>Properties of an action that pass through \<open>and_then\<close>.\<close>

definition keeps_domain :: "'a action \<Rightarrow> bool" where
  "keeps_domain m = (\<forall>c. domain (snd (m c)) = domain c)"


definition surfaces :: "'a action \<Rightarrow> bool" where
  "surfaces m = (\<forall>c r c'. m c = (r, c') \<longrightarrow>
     (\<exists>new. events c' = events c @ new \<and>
        (\<forall>x. Raise x \<in> set new \<longrightarrow> r = Inl x \<and> last new = Raise x)))"


definition keeps_settled :: "'a action \<Rightarrow> bool" where
  "keeps_settled m = (\<forall>c. settled c \<longrightarrow> settled (snd (m c)))"


subsection \<open>Origins\<close>

text \<open>
  The origin of a URL in the words of the specification: its scheme, host and
  port (the scheme's own port when the URL names none). The source has no such
  function; this one serves to compare the routing of \<open>upload\<close> with it.
\<close>

fun scheme_split :: "string \<Rightarrow> string \<Rightarrow> (string \<times> string) option" where
  "scheme_split acc [] = None"
| "scheme_split acc (ch # cs) =
     (if prefix ''://'' (ch # cs) then Some (rev acc, drop 3 (ch # cs))
      else scheme_split (ch # acc) cs)"

definition default_port :: "string \<Rightarrow> string" where
  "default_port scheme = (if scheme = ''https'' then ''443''
                          else if scheme = ''http'' then ''80'' else [])"

definition origin :: "string \<Rightarrow> (string \<times> string \<times> string) option" where
  "origin u =
     (case scheme_split [] u of
        None \<Rightarrow> None
      | Some (scheme, rest) \<Rightarrow>
          (let authority = takeWhile (\<lambda>ch. ch \<notin> set ''/?#'') rest;
               hostport = rev (takeWhile (\<lambda>ch. ch \<noteq> CHR ''@'') (rev authority));
               host = takeWhile (\<lambda>ch. ch \<noteq> CHR '':'') hostport;
               port = (case dropWhile (\<lambda>ch. ch \<noteq> CHR '':'') hostport of
                         [] \<Rightarrow> default_port scheme
                       | colon # p \<Rightarrow> if p = [] then default_port scheme else p)
           in Some (scheme, host, port)))"

definition same_origin :: "string \<Rightarrow> string \<Rightarrow> bool" where
  "same_origin a b = (origin a \<noteq> None \<and> origin a = origin b)"

subsection \<open>Example runs\<close>

text \<open>
  Concrete servers and arguments, for evaluating the operations. The environment
  has version 1.12.0, a two-line status table, the identity for \<open>quote\<close>, and
  stand-ins for the encoder and the hash.
\<close>

definition reply :: "int \<Rightarrow> jvalue option \<Rightarrow> response" where
  "reply st body =
     \<lparr>status_code = st, headers = Map.empty, text_of = [], json = body, xml = None,
      request_method = ''GET'', request_url = ''https://api.anaconda.org/''\<rparr>"

definition example_env :: "(request \<Rightarrow> string + response) \<Rightarrow> env" where
  "example_env t =
     \<lparr>version = ''1.12.0'',
      py_str = (\<lambda>v. ''?''),
      node = ''localhost'',
      kerberos_installed = False,
      pv_gt = (\<lambda>a b. False),
      STATUS_CODES = [404 \<mapsto> (''NOT FOUND'', ''Nothing matches the given URI''),
                      200 \<mapsto> (''OK'', ''Request fulfilled, document follows'')],
      jencode = (\<lambda>v. (''{}'', [''Content-Type'' \<mapsto> ''application/json''])),
      quote = (\<lambda>s. s),
      compute_hash = (\<lambda>alg fd sz. ((''0f'', ''Dw=='', int (length (content fd)) - int (pos fd)), fd)),
      transport = t\<rparr>"

definition always :: "response \<Rightarrow> request \<Rightarrow> string + response" where
  "always res q = Inr res"

definition example_client :: client where
  "example_client = init (example_env (always (reply 200 None))) (Some ''s3cr3t'')
                      ''https://api.anaconda.org'' True"

definition example_file :: fileobj where
  "example_file = \<lparr>content = ''abc'', pos = 0, fileno = Some 3\<rparr>"

text \<open>
  A server for \<open>upload\<close>: it stages with the given storage URL, answers the request
  that carries the file with the first response and the commit with the second.
\<close>

definition stage_body :: "string \<Rightarrow> jvalue" where
  "stage_body s3url =
     JDict [(''post_url'', JStr s3url),
            (''form_data'', JDict [(''key'', JStr ''pkg'')]),
            (''dist_id'', JStr ''d1'')]"

definition upload_server :: "string \<Rightarrow> response \<Rightarrow> response \<Rightarrow> request \<Rightarrow> string + response" where
  "upload_server s3url s3res commit_res q =
     (if files q \<noteq> None then Inr s3res
      else if startswith (url q) ''https://api.anaconda.org/stage/''
      then Inr (reply 200 (Some (stage_body s3url)))
      else Inr commit_res)"

definition example_upload ::
  "(request \<Rightarrow> string + response) \<Rightarrow> string option \<Rightarrow> (error + jvalue) \<times> client" where
  "example_upload t md5 =
     upload (example_env t) ''u'' ''p'' ''1.0'' ''p.tar'' example_file (AsStr ''conda'') []
       md5 None None JNull JNull (JList [JStr ''main'']) example_client"

text \<open>The error that classification raises for \<open>reply 404 None\<close>, and a dead network.\<close>

definition not_found_error :: error where
  "not_found_error =
     ApiError NotFound
       (JStr ''NOT FOUND: Nothing matches the given URI ([GET] https://api.anaconda.org/ -> 404)'')
       (Some 404) None"

definition unreachable :: "request \<Rightarrow> string + response" where
  "unreachable q = Inl ''connection refused''"

definition token_warning_reply :: response where
  "token_warning_reply =
     (reply 200 (Some (JDict [])))\<lparr>headers := [''Conda-Token-Warning'' \<mapsto> ''token expires soon'']\<rparr>"

section \<open>Properties\<close>

lemmas run_defs = and_then_def lift_def send_def prepare_def new_request_def check_response_def
  classify_def check_headers_def logger_def res_json_def returning_def

lemmas example_defs = example_env_def reply_def always_def example_client_def init_def
  example_file_def stage_body_def upload_server_def example_upload_def
  token_warning_reply_def not_found_error_def unreachable_def
  startswith_def endswith_def suffix_to_prefix

subsection \<open>Response classification\<close>

lemma classify_allowed:
  "status_code res \<in> set allowed \<Longrightarrow> classify e res allowed = Inr ()"
  by (simp add: classify_def)

lemma classify_success_iff:
  "classify e res allowed = Inr () \<longleftrightarrow> status_code res \<in> set allowed"
  by (auto simp: classify_def Let_def split: sum.splits option.splits)

lemma ErrCls_cases:
  "ErrCls 401 = Unauthorized" "ErrCls 404 = NotFound" "ErrCls 409 = Conflict"
  "500 \<le> st \<Longrightarrow> ErrCls st = ServerError"
  "st \<noteq> 401 \<Longrightarrow> st \<noteq> 404 \<Longrightarrow> st \<noteq> 409 \<Longrightarrow> st < 500 \<Longrightarrow> ErrCls st = BinstarError"
  by (simp_all add: ErrCls_def)

text \<open>
  When the body does not decode, or decodes to an object, a status outside the
  allowed ones gives the API error of the class that the status selects, with
  the status attached.
\<close>

lemma classify_disallowed:
  assumes "status_code res \<notin> set allowed"
    and "json res = None \<or> (\<exists>kvs. json res = Some (JDict kvs))"
  shows "\<exists>msg. classify e res allowed =
           Inl (ApiError (ErrCls (status_code res)) msg (Some (status_code res)) None)"
  using assms by (auto simp: classify_def Let_def)

text \<open>
  C1. Classification is to return when the status is among the allowed ones and
  otherwise to raise the API error that the status alone selects, whatever the
  response. The code does so unless the body decodes to JSON that is not an
  object: \<open>data.get\<close> stands outside the \<open>try\<close>, and for a 404 whose body is the
  JSON list \<open>[]\<close> the call raises \<open>AttributeError\<close> where \<open>NotFound\<close> is due.
\<close>

theorem check_response_list_body:
  "fst (check_response (example_env (always (reply 200 None)))
          (reply 404 (Some (JList []))) [200] example_client)
   = Inl (AttributeError ''list object has no attribute get'')"
  by (simp add: run_defs example_defs)

subsection \<open>The events of the building blocks\<close>

lemma check_headers_eq:
  "check_headers e res c =
     c\<lparr>events := events c @ header_logs e res (token_warning_sent c),
       token_warning_sent := token_warning_sent c \<or> headers res ''Conda-Token-Warning'' \<noteq> None\<rparr>"
  by (simp add: check_headers_def header_logs_def logger_def Let_def)

lemma check_response_eq:
  "check_response e res al c =
     (case classify e res al of
        Inl x \<Rightarrow> (Inl x, c\<lparr>events := events c @ header_logs e res (token_warning_sent c) @ [Raise x],
                            token_warning_sent := token_warning_sent c
                               \<or> headers res ''Conda-Token-Warning'' \<noteq> None\<rparr>)
      | Inr u \<Rightarrow> (Inr (), c\<lparr>events := events c @ header_logs e res (token_warning_sent c),
                            token_warning_sent := token_warning_sent c
                               \<or> headers res ''Conda-Token-Warning'' \<noteq> None\<rparr>))"
  by (simp add: check_response_def check_headers_eq Let_def split: sum.splits)

lemma send_run:
  "send e q c =
     (case transport e (prepare c q) of Inl x \<Rightarrow> Inl (RequestException x) | Inr res \<Rightarrow> Inr res,
      c\<lparr>events := events c @ [Exchange (prepare c q) (transport e (prepare c q))]\<rparr>)"
  by (simp add: send_def Let_def split: sum.splits)

lemma prepare_simps [simp]:
  "url (prepare c q) = url q" "files (prepare c q) = files q" "via (prepare c q) = via q"
  "req_headers (prepare c q) =
     (if via q = Session then session_headers c ++ req_headers q else req_headers q)"
  by (simp_all add: prepare_def split: via.splits)


lemma header_logs_no_raise: "Raise x \<notin> set (header_logs e res sent)"
  by (auto simp: header_logs_def Let_def)

lemma exchanges_append: "exchanges (xs @ ys) = exchanges xs @ exchanges ys"
  by (induction xs rule: exchanges.induct) simp_all

lemma exchanges_header_logs: "exchanges (header_logs e res sent) = []"
  by (simp add: header_logs_def Let_def exchanges_append)

lemma new_events_append [simp]:
  "new_events c (c\<lparr>events := events c @ xs, token_warning_sent := b\<rparr>) = xs"
  "new_events c (c\<lparr>events := events c @ xs\<rparr>) = xs" "new_events c c = []"
  by (simp_all add: new_events_def)

subsection \<open>Errors raised by the classifier reach the caller\<close>

lemma sf_lift: "surfaces (lift r)"
  by (simp add: surfaces_def lift_def)

lemma sf_send: "surfaces (send e q)"
  by (auto simp: surfaces_def send_def Let_def split: sum.splits)

lemma sf_check_response: "surfaces (check_response e res al)"
  by (auto simp: surfaces_def check_response_eq header_logs_no_raise split: sum.splits)

lemma sf_storage_failure: "surfaces (storage_failure s)"
  by (auto simp: surfaces_def storage_failure_def logger_def Let_def split: option.splits)

lemma sf_set_headers: "surfaces (\<lambda>c'. (Inr tok, c'\<lparr>session_headers := g c'\<rparr>))"
  by (simp add: surfaces_def)

lemma sf_throw: "surfaces (\<lambda>c. (Inl x, c))"
  by (simp add: surfaces_def)

lemma sf_and_then:
  assumes m: "surfaces m" and f: "\<And>a. surfaces (f a)"
  shows "surfaces (and_then m f)"
  unfolding surfaces_def
proof (intro allI impI)
  fix c r c'
  assume run: "and_then m f c = (r, c')"
  obtain r1 c1 where mc: "m c = (r1, c1)" by (cases "m c")
  from m mc obtain new1 where n1: "events c1 = events c @ new1"
    and s1: "\<forall>x. Raise x \<in> set new1 \<longrightarrow> r1 = Inl x \<and> last new1 = Raise x"
    unfolding surfaces_def by blast
  show "\<exists>new. events c' = events c @ new \<and>
          (\<forall>x. Raise x \<in> set new \<longrightarrow> r = Inl x \<and> last new = Raise x)"
  proof (cases r1)
    case (Inl x)
    with run mc have "r = Inl x" "c' = c1" by (simp_all add: and_then_def)
    with n1 s1 Inl show ?thesis by auto
  next
    case (Inr a)
    with run mc have fa: "f a c1 = (r, c')" by (simp add: and_then_def)
    from f[of a] fa obtain new2 where n2: "events c' = events c1 @ new2"
      and s2: "\<forall>x. Raise x \<in> set new2 \<longrightarrow> r = Inl x \<and> last new2 = Raise x"
      unfolding surfaces_def by blast
    from s1 Inr have quiet1: "\<forall>x. Raise x \<notin> set new1" by auto
    have "events c' = events c @ (new1 @ new2)" using n1 n2 by simp
    moreover have "\<forall>x. Raise x \<in> set (new1 @ new2) \<longrightarrow> r = Inl x \<and> last (new1 @ new2) = Raise x"
    proof (intro allI impI)
      fix x assume "Raise x \<in> set (new1 @ new2)"
      with quiet1 have in2: "Raise x \<in> set new2" by auto
      then have "new2 \<noteq> []" by auto
      with s2 in2 show "r = Inl x \<and> last (new1 @ new2) = Raise x" by simp
    qed
    ultimately show ?thesis by blast
  qed
qed

lemma sf_if: "surfaces m \<Longrightarrow> surfaces m' \<Longrightarrow> surfaces (if b then m else m')"
  by simp

lemma sf_case_option:
  "surfaces m \<Longrightarrow> (\<And>x. surfaces (f x)) \<Longrightarrow> surfaces (case_option m f v)"
  by (cases v) auto

lemma sf_app:
  "surfaces m \<Longrightarrow> m c = (r, c') \<Longrightarrow> Raise x \<in> set (new_events c c')
     \<Longrightarrow> r = Inl x \<and> last (events c') = Raise x"
  unfolding surfaces_def new_events_def
  by (metis append_eq_conv_conj empty_iff empty_set last_appendR)

lemmas sf_intros = sf_and_then sf_lift sf_send sf_check_response sf_storage_failure sf_if
  sf_case_option sf_set_headers

lemma sf_returning: "surfaces m \<Longrightarrow> surfaces (returning f m)"
  unfolding returning_def by (intro sf_intros)

lemma sf_eta: "surfaces (\<lambda>c. m c) \<Longrightarrow> surfaces m"
  by simp

lemma sf_run:
  assumes "and_then m f c = (r, c')" and "Raise x \<in> set (new_events c c')"
    and "surfaces m" and "\<And>a. surfaces (f a)"
  shows "r = Inl x \<and> last (events c') = Raise x"
  using sf_app[OF sf_and_then[of m f], OF assms(3) assms(4) assms(1) assms(2)] .

lemma sf_operations:
  "list_scopes e c = (r, c') \<Longrightarrow> Raise x \<in> set (new_events c c')
     \<Longrightarrow> r = Inl x \<and> last (events c') = Raise x"
  "authentication e c = (r, c') \<Longrightarrow> Raise x \<in> set (new_events c c')
     \<Longrightarrow> r = Inl x \<and> last (events c') = Raise x"
  "authentications e c = (r, c') \<Longrightarrow> Raise x \<in> set (new_events c c')
     \<Longrightarrow> r = Inl x \<and> last (events c') = Raise x"
  "user_licenses e c = (r, c') \<Longrightarrow> Raise x \<in> set (new_events c c')
     \<Longrightarrow> r = Inl x \<and> last (events c') = Raise x"
  "user e lo c = (r, c') \<Longrightarrow> Raise x \<in> set (new_events c c')
     \<Longrightarrow> r = Inl x \<and> last (events c') = Raise x"
  "package e l p c = (r, c') \<Longrightarrow> Raise x \<in> set (new_events c c')
     \<Longrightarrow> r = Inl x \<and> last (events c') = Raise x"
  "package_collaborators e l p c = (r, c') \<Longrightarrow> Raise x \<in> set (new_events c c')
     \<Longrightarrow> r = Inl x \<and> last (events c') = Raise x"
  "release e l p v c = (r, c') \<Longrightarrow> Raise x \<in> set (new_events c c')
     \<Longrightarrow> r = Inl x \<and> last (events c') = Raise x"
  "distribution e l p v bo c = (r, c') \<Longrightarrow> Raise x \<in> set (new_events c c')
     \<Longrightarrow> r = Inl x \<and> last (events c') = Raise x"
  "user_packages e lo pf pt ty ac c = (r, c') \<Longrightarrow> Raise x \<in> set (new_events c c')
     \<Longrightarrow> r = Inl x \<and> last (events c') = Raise x"
  "all_packages e ma c = (r, c') \<Longrightarrow> Raise x \<in> set (new_events c c')
     \<Longrightarrow> r = Inl x \<and> last (events c') = Raise x"
  "update_package e l p kvs c = (r, c') \<Longrightarrow> Raise x \<in> set (new_events c c')
     \<Longrightarrow> r = Inl x \<and> last (events c') = Raise x"
  "update_release e l p v kvs c = (r, c') \<Longrightarrow> Raise x \<in> set (new_events c c')
     \<Longrightarrow> r = Inl x \<and> last (events c') = Raise x"
  "add_release e l p v rq an kvs c = (r, c') \<Longrightarrow> Raise x \<in> set (new_events c c')
     \<Longrightarrow> r = Inl x \<and> last (events c') = Raise x"
  "search e qu pt pf2 c = (r, c') \<Longrightarrow> Raise x \<in> set (new_events c c')
     \<Longrightarrow> r = Inl x \<and> last (events c') = Raise x"
  "add_package e l p sm li pb lu lf at pt c = (r, c') \<Longrightarrow> Raise x \<in> set (new_events c c')
     \<Longrightarrow> r = Inl x \<and> last (events c') = Raise x"
  "authenticate_impl e au a c = (r, c') \<Longrightarrow> Raise x \<in> set (new_events c c')
     \<Longrightarrow> r = Inl x \<and> last (events c') = Raise x"
  "download e l p v b m c = (rd, c') \<Longrightarrow> Raise x \<in> set (new_events c c')
     \<Longrightarrow> rd = Inl x \<and> last (events c') = Raise x"
  "upload e l p v b fd dt ds m h sz deps at ch c = (r, c') \<Longrightarrow> Raise x \<in> set (new_events c c')
     \<Longrightarrow> r = Inl x \<and> last (events c') = Raise x"
  unfolding list_scopes_def authentication_def authentications_def user_licenses_def user_def
    package_def package_collaborators_def release_def distribution_def user_packages_def
    all_packages_def update_package_def update_release_def add_release_def search_def
    add_package_def authenticate_impl_def download_def upload_def upload_stage_def upload_transfer_def upload_commit_def
    Let_def split_def
  by (erule (1) sf_run; intro sf_intros)+

lemma sf_operations_201:
  "remove_authentication e ao go c = (ru, c') \<Longrightarrow> Raise x \<in> set (new_events c c')
     \<Longrightarrow> ru = Inl x \<and> last (events c') = Raise x"
  "package_add_collaborator e l p k c = (ru, c') \<Longrightarrow> Raise x \<in> set (new_events c c')
     \<Longrightarrow> ru = Inl x \<and> last (events c') = Raise x"
  "package_remove_collaborator e l p k c = (ru, c') \<Longrightarrow> Raise x \<in> set (new_events c c')
     \<Longrightarrow> ru = Inl x \<and> last (events c') = Raise x"
  "remove_package e l p c = (ru, c') \<Longrightarrow> Raise x \<in> set (new_events c c')
     \<Longrightarrow> ru = Inl x \<and> last (events c') = Raise x"
  "remove_release e l p v c = (ru, c') \<Longrightarrow> Raise x \<in> set (new_events c c')
     \<Longrightarrow> ru = Inl x \<and> last (events c') = Raise x"
  unfolding remove_authentication_def package_add_collaborator_def
    package_remove_collaborator_def remove_package_def remove_release_def Let_def
  by (erule (1) sf_run; intro sf_intros)+

lemma sf_remove_dist:
  "remove_dist e l p v bo io c = (r, c') \<Longrightarrow> Raise x \<in> set (new_events c c')
     \<Longrightarrow> r = Inl x \<and> last (events c') = Raise x"
  unfolding remove_dist_def Let_def
  apply (cases "truthy bo"; cases "truthy io"; simp only: if_True if_False)
     apply (erule (1) sf_run; intro sf_intros)+
  apply (auto simp: new_events_def)
  done

lemma sf_authenticate:
  "authenticate e u pw a c = (r, c') \<Longrightarrow> Raise x \<in> set (new_events c c')
     \<Longrightarrow> r = Inl x \<and> last (events c') = Raise x"
  "krb_authenticate e a c = (r, c') \<Longrightarrow> Raise x \<in> set (new_events c c')
     \<Longrightarrow> r = Inl x \<and> last (events c') = Raise x"
  unfolding authenticate_def krb_authenticate_def
  by (auto simp: new_events_def split: if_splits dest: sf_operations(17)[unfolded new_events_def])

lemma sf_grows: "surfaces m \<Longrightarrow> m c = (r, c') \<Longrightarrow> \<exists>new. events c' = events c @ new"
  unfolding surfaces_def by blast

lemma send_events:
  "send e q c = (r, c1) \<Longrightarrow> \<exists>q' out. events c1 = events c @ [Exchange q' out]"
  by (auto simp: send_def Let_def split: sum.splits)

lemma try_except_lift:
  assumes "try_except p m (\<lambda>x. lift (h x)) c = (r, c')"
  obtains r0 where "m c = (r0, c')"
    and "r = (case r0 of Inl x \<Rightarrow> if p x then h x else Inl x | Inr a \<Rightarrow> Inr a)"
  using assms by (cases "m c") (auto simp: try_except_def lift_def split: sum.splits if_splits)

lemma sf_authentication_type:
  assumes run: "authentication_type e c = (r, c')" and raised: "Raise x \<in> set (new_events c c')"
  shows "last (events c') = Raise x \<and>
         r = (if is_api_error x then Inr (JStr ''password'') else Inl x)"
proof -
  let ?q = "new_request Session ''GET'' (domain c @ ''/authentication-type'')"
  obtain r1 c1 where s: "send e ?q c = (r1, c1)" by (cases "send e ?q c")
  from send_events[OF s] obtain q' out where ev1: "events c1 = events c @ [Exchange q' out]"
    by blast
  show ?thesis
  proof (cases r1)
    case (Inl y)
    with run s have "c' = c1" by (simp add: authentication_type_def and_then_def)
    with ev1 raised show ?thesis by (simp add: new_events_def)
  next
    case (Inr res)
    let ?inner = "and_then (check_response e res [200])
                    (\<lambda>_. and_then (lift (res_json res))
                    (\<lambda>res'. lift (getitem res' ''authentication_type'')))"
    from run s Inr
    have t: "try_except is_api_error ?inner (\<lambda>x. lift (Inr (JStr ''password''))) c1 = (r, c')"
      by (simp add: authentication_type_def and_then_def)
    from try_except_lift[OF t] obtain r0 where inner: "?inner c1 = (r0, c')"
      and r: "r = (case r0 of Inl x \<Rightarrow> if is_api_error x then Inr (JStr ''password'') else Inl x
                   | Inr a \<Rightarrow> Inr a)" by blast
    have sf: "surfaces ?inner" by (intro sf_intros)
    from sf_grows[OF sf inner] obtain new2 where ev2: "events c' = events c1 @ new2" by blast
    from raised ev1 ev2 have "Raise x \<in> set (new_events c1 c')"
      by (simp add: new_events_def)
    with sf inner have "r0 = Inl x \<and> last (events c') = Raise x"
      by (rule sf_app)
    with r show ?thesis by simp
  qed
qed

lemma sf_check_server:
  assumes run: "check_server e c = (r, c')" and raised: "Raise x \<in> set (new_events c c')"
  shows "last (events c') = Raise x \<and>
         r = Inl (if is_not_found x
                  then ApiError ServerError (JStr server_not_found) None (Some x) else x)"
proof -
  let ?q = "new_request Session ''HEAD'' (domain c)"
  let ?wrap = "\<lambda>x. Inl (ApiError ServerError (JStr server_not_found) None (Some x))"
  obtain r1 c1 where f: "try_except (\<lambda>x. True) (send e ?q) (\<lambda>x. lift (?wrap x)) c = (r1, c1)"
    by (cases "try_except (\<lambda>x. True) (send e ?q) (\<lambda>x. lift (?wrap x)) c")
  from try_except_lift[OF f] obtain r0 where s: "send e ?q c = (r0, c1)"
    and r1: "r1 = (case r0 of Inl x \<Rightarrow> if True then ?wrap x else Inl x | Inr a \<Rightarrow> Inr a)"
    by blast
  from send_events[OF s] obtain q' out where ev1: "events c1 = events c @ [Exchange q' out]"
    by blast
  show ?thesis
  proof (cases r0)
    case (Inl y)
    with run f r1 have "c' = c1" by (simp add: check_server_def and_then_def Let_def)
    with ev1 raised show ?thesis by (simp add: new_events_def)
  next
    case (Inr res)
    with run f r1
    have t: "try_except is_not_found (check_response e res [200]) (\<lambda>x. lift (?wrap x)) c1 = (r, c')"
      by (simp add: check_server_def and_then_def Let_def)
    from try_except_lift[OF t] obtain r2 where chk: "check_response e res [200] c1 = (r2, c')"
      and r: "r = (case r2 of Inl x \<Rightarrow> if is_not_found x then ?wrap x else Inl x
                   | Inr a \<Rightarrow> Inr a)" by blast
    from sf_grows[OF sf_check_response chk] obtain new2 where ev2: "events c' = events c1 @ new2"
      by blast
    from raised ev1 ev2 have "Raise x \<in> set (new_events c1 c')"
      by (simp add: new_events_def)
    with sf_check_response chk have "r2 = Inl x \<and> last (events c') = Raise x"
      by (rule sf_app)
    with r show ?thesis by simp
  qed
qed

lemma check_server_unreachable:
  assumes "transport e ((new_request Session ''HEAD'' (domain c))\<lparr>req_headers := session_headers c\<rparr>)
             = Inl msg"
  shows "fst (check_server e c)
           = Inl (ApiError ServerError (JStr server_not_found) None (Some (RequestException msg)))"
  using assms
  by (simp add: check_server_def and_then_def try_except_def send_def prepare_def lift_def
        Let_def new_request_def)

lemma returning_inv:
  assumes "returning f m c = (r, c')"
  obtains r0 where "m c = (r0, c')" and "r = (case r0 of Inl x \<Rightarrow> Inl x | Inr a \<Rightarrow> Inr (f a))"
  using assms by (cases "m c") (auto simp: returning_def and_then_def lift_def split: sum.splits)

lemma returning_surfaced:
  assumes "returning f m c = (r, c')"
    and "\<And>r0. m c = (r0, c') \<Longrightarrow> r0 = Inl x \<and> last (events c') = Raise x"
  shows "last (events c') = Raise x \<and> r = Inl x"
  using assms by (auto elim!: returning_inv)

text \<open>
  C8 (as amended). An error raised by the classification of a response is the last
  thing an operation does: nothing is sent or logged after it, so nothing is
  retried. Every operation but two hands that error to its caller unchanged.
  \<open>authentication_type\<close> catches an API error of any class and returns
  \<open>password\<close> in its place; \<open>check_server\<close> replaces \<open>NotFound\<close> by \<open>ServerError\<close> with
  its fixed message and the \<open>NotFound\<close> as cause. A failure of the transport is
  wrapped into \<open>ServerError\<close>, with the same message and the failure as cause, by
  \<open>check_server\<close>.
\<close>

theorem classified_error_surfaced:
  "(perform e call c = (r, c') \<and> Raise x \<in> set (new_events c c') \<longrightarrow>
      last (events c') = Raise x \<and>
      (call \<noteq> AuthenticationType \<and> call \<noteq> CheckServer \<longrightarrow> r = Inl x) \<and>
      (call = AuthenticationType \<longrightarrow>
         r = (if is_api_error x then Inr (RJson (JStr ''password'')) else Inl x)) \<and>
      (call = CheckServer \<longrightarrow>
         r = Inl (if is_not_found x
                  then ApiError ServerError (JStr server_not_found) None (Some x) else x)))
   \<and> (transport e ((new_request Session ''HEAD'' (domain c))\<lparr>req_headers := session_headers c\<rparr>)
         = Inl msg \<longrightarrow>
       fst (check_server e c)
         = Inl (ApiError ServerError (JStr server_not_found) None (Some (RequestException msg))))"
proof (intro conjI impI)
  assume "transport e ((new_request Session ''HEAD'' (domain c))\<lparr>req_headers := session_headers c\<rparr>)
            = Inl msg"
  then show "fst (check_server e c)
      = Inl (ApiError ServerError (JStr server_not_found) None (Some (RequestException msg)))"
    by (rule check_server_unreachable)
next
  assume a: "perform e call c = (r, c') \<and> Raise x \<in> set (new_events c c')"
  then have run: "perform e call c = (r, c')" and raised: "Raise x \<in> set (new_events c c')"
    by simp_all
  have other: "last (events c') = Raise x \<and> r = Inl x"
    if "call \<noteq> AuthenticationType" "call \<noteq> CheckServer"
    using that run raised
    by (cases call)
       (auto elim!: returning_surfaced
             dest: sf_operations sf_operations_201 sf_remove_dist sf_authenticate)
  have at: "last (events c') = Raise x \<and>
            r = (if is_api_error x then Inr (RJson (JStr ''password'')) else Inl x)"
    if "call = AuthenticationType"
  proof -
    from that run obtain r0 where m: "authentication_type e c = (r0, c')"
      and r: "r = (case r0 of Inl x \<Rightarrow> Inl x | Inr a \<Rightarrow> Inr (RJson a))"
      by (auto elim!: returning_inv)
    from sf_authentication_type[OF m raised] r show ?thesis by simp
  qed
  have cs: "last (events c') = Raise x \<and>
            r = Inl (if is_not_found x
                     then ApiError ServerError (JStr server_not_found) None (Some x) else x)"
    if "call = CheckServer"
  proof -
    from that run obtain r0 where m: "check_server e c = (r0, c')"
      and r: "r = (case r0 of Inl x \<Rightarrow> Inl x | Inr a \<Rightarrow> Inr RNone)"
      by (auto elim!: returning_inv)
    from sf_check_server[OF m raised] r show ?thesis by simp
  qed
  from other at cs show "last (events c') = Raise x" by blast
  from other show "r = Inl x" if "call \<noteq> AuthenticationType \<and> call \<noteq> CheckServer"
    using that by blast
  from at show "r = (if is_api_error x then Inr (RJson (JStr ''password'')) else Inl x)"
    if "call = AuthenticationType" using that by blast
  from cs show "r = Inl (if is_not_found x
                     then ApiError ServerError (JStr server_not_found) None (Some x) else x)"
    if "call = CheckServer" using that by blast
qed

subsection \<open>The base endpoint\<close>

lemma domain_check_headers: "domain (check_headers e res c) = domain c"
  by (simp add: check_headers_def logger_def Let_def)

lemma kd_app: "keeps_domain m \<Longrightarrow> domain (snd (m c)) = domain c"
  by (simp add: keeps_domain_def)

lemma kd_lift: "keeps_domain (lift r)"
  by (simp add: keeps_domain_def lift_def)

lemma kd_send: "keeps_domain (send e q)"
  by (simp add: keeps_domain_def send_def Let_def split: sum.splits)

lemma kd_check_response: "keeps_domain (check_response e res al)"
  by (simp add: keeps_domain_def check_response_def Let_def domain_check_headers split: sum.splits)

lemma kd_storage_failure: "keeps_domain (storage_failure s)"
  by (simp add: keeps_domain_def storage_failure_def logger_def Let_def split: option.splits)

lemma kd_and_then:
  assumes "keeps_domain m" and "\<And>a. keeps_domain (f a)"
  shows "keeps_domain (and_then m f)"
  unfolding keeps_domain_def
proof
  fix c
  obtain r c1 where mc: "m c = (r, c1)" by (cases "m c")
  with assms(1) have "domain c1 = domain c" by (metis kd_app snd_conv)
  with mc assms(2) show "domain (snd (and_then m f c)) = domain c"
    by (cases r) (simp_all add: and_then_def kd_app)
qed

lemma kd_try_except:
  assumes "keeps_domain m" and "\<And>x. keeps_domain (h x)"
  shows "keeps_domain (try_except p m h)"
  unfolding keeps_domain_def
proof
  fix c
  obtain r c1 where mc: "m c = (r, c1)" by (cases "m c")
  with assms(1) have "domain c1 = domain c" by (metis kd_app snd_conv)
  with mc assms(2) show "domain (snd (try_except p m h c)) = domain c"
    by (cases r) (simp_all add: try_except_def kd_app)
qed

lemma kd_if: "keeps_domain m \<Longrightarrow> keeps_domain m' \<Longrightarrow> keeps_domain (if b then m else m')"
  by simp

lemma kd_case_option:
  "keeps_domain m \<Longrightarrow> (\<And>x. keeps_domain (f x)) \<Longrightarrow> keeps_domain (case_option m f v)"
  by (cases v) auto

lemma kd_case_prod: "(\<And>a b. keeps_domain (f a b)) \<Longrightarrow> keeps_domain (case_prod f p)"
  by (cases p) auto

lemma kd_set_headers:
  "keeps_domain (\<lambda>c'. (Inr tok, c'\<lparr>session_headers := g c'\<rparr>))"
  by (simp add: keeps_domain_def)

lemmas kd_intros = kd_and_then kd_try_except kd_lift kd_send kd_check_response
  kd_storage_failure kd_if kd_case_option kd_case_prod kd_set_headers

lemma kd_run:
  "keeps_domain m \<Longrightarrow> (\<And>a. keeps_domain (f a)) \<Longrightarrow> domain (snd (and_then m f c)) = domain c"
  by (rule kd_app) (rule kd_and_then)

lemma kd_authenticate_impl: "keeps_domain (authenticate_impl e au a)"
  unfolding keeps_domain_def authenticate_impl_def Let_def split_def
  by (intro allI kd_run kd_intros)

lemma kd_returning: "keeps_domain m \<Longrightarrow> keeps_domain (returning f m)"
  unfolding returning_def by (intro kd_intros)

lemma kd_operations:
  "keeps_domain (check_server e)" "keeps_domain (authentication_type e)"
  "keeps_domain (list_scopes e)" "keeps_domain (authentication e)"
  "keeps_domain (authentications e)" "keeps_domain (user_licenses e)"
  "keeps_domain (user e lo)" "keeps_domain (package e l p)"
  "keeps_domain (package_collaborators e l p)" "keeps_domain (release e l p v)"
  "keeps_domain (distribution e l p v bo)" "keeps_domain (user_packages e lo pf pt ty ac)"
  "keeps_domain (all_packages e ma)" "keeps_domain (update_package e l p kvs)"
  "keeps_domain (update_release e l p v kvs)" "keeps_domain (add_release e l p v rq an kvs)"
  "keeps_domain (search e qu pt pf2)"
  "keeps_domain (add_package e l p sm li pb lu lf at pt)"
  "keeps_domain (remove_authentication e ao go)"
  "keeps_domain (package_add_collaborator e l p k)"
  "keeps_domain (package_remove_collaborator e l p k)"
  "keeps_domain (remove_package e l p)" "keeps_domain (remove_release e l p v)"
  "keeps_domain (download e l p v b m)"
  "keeps_domain (upload e l p v b fd dt ds m h sz deps at ch)"
  unfolding keeps_domain_def check_server_def authentication_type_def list_scopes_def
    authentication_def authentications_def user_licenses_def user_def package_def
    package_collaborators_def release_def distribution_def user_packages_def all_packages_def
    update_package_def update_release_def add_release_def search_def add_package_def
    remove_authentication_def package_add_collaborator_def package_remove_collaborator_def
    remove_package_def remove_release_def download_def upload_def upload_stage_def upload_transfer_def upload_commit_def
    Let_def split_def
  by (intro allI kd_run kd_intros)+

lemma kd_remove_dist: "keeps_domain (remove_dist e l p r b i)"
  unfolding keeps_domain_def remove_dist_def Let_def
  by (auto intro!: kd_run kd_intros)

lemma kd_authenticate: "keeps_domain (krb_authenticate e a)" "keeps_domain (authenticate e u pw a)"
  using kd_authenticate_impl by (auto simp: keeps_domain_def krb_authenticate_def authenticate_def)

lemma kd_perform: "keeps_domain (perform e call)"
  by (cases call) (simp_all add: kd_returning kd_operations kd_remove_dist kd_authenticate)

lemma domain_perform_all: "domain (perform_all e calls c) = domain c"
  by (induction calls arbitrary: c) (simp_all add: kd_app kd_perform)

subsection \<open>The token warning\<close>

lemma token_warnings_append [simp]:
  "token_warnings (xs @ ys) = token_warnings xs + token_warnings ys"
  by (simp add: token_warnings_def)




lemma not_token_warning [simp]:
  "\<not> is_token_warning (Log WARNING (version_warning a v))"
  "\<not> is_token_warning (Log WARNING ''Anaconda repository is currently in LOCKDOWN mode.'')"
  "\<not> is_token_warning (Log WARNING ''Anaconda repository is currently in READ ONLY mode.'')"
  "is_token_warning (Log WARNING (''Token warning: '' @ w))"
  by (simp_all add: version_warning_def startswith_def)




































text \<open>Stepping through a sequence of statements.\<close>

lemma and_then_lift: "and_then (lift r) f c = (case r of Inl x \<Rightarrow> (Inl x, c) | Inr a \<Rightarrow> f a c)"
  by (simp add: and_then_def lift_def split: sum.splits)

lemma and_then_send:
  "and_then (send e q) f c =
     (case transport e (prepare c q) of
        Inl x \<Rightarrow> (Inl (RequestException x),
                  c\<lparr>events := events c @ [Exchange (prepare c q) (transport e (prepare c q))]\<rparr>)
      | Inr res \<Rightarrow> f res (c\<lparr>events := events c @ [Exchange (prepare c q) (Inr res)]\<rparr>))"
  by (simp add: and_then_def send_def Let_def split: sum.splits)

lemma and_then_check_response:
  "and_then (check_response e res al) f c =
     (case classify e res al of
        Inl x \<Rightarrow> (Inl x, c\<lparr>events := events c @ header_logs e res (token_warning_sent c) @ [Raise x],
                            token_warning_sent := token_warning_sent c
                               \<or> headers res ''Conda-Token-Warning'' \<noteq> None\<rparr>)
      | Inr u \<Rightarrow> f () (c\<lparr>events := events c @ header_logs e res (token_warning_sent c),
                         token_warning_sent := token_warning_sent c
                               \<or> headers res ''Conda-Token-Warning'' \<noteq> None\<rparr>))"
  by (simp add: and_then_def check_response_eq split: sum.splits)

lemmas step = and_then_lift and_then_send and_then_check_response

lemma exchanges_simps [simp]:
  "exchanges (xs @ ys) = exchanges xs @ exchanges ys"
  "exchanges (header_logs e res sent) = []"
  by (simp_all add: exchanges_append exchanges_header_logs)

lemma transfers_simps [simp]:
  "transfers [] = []" "transfers (xs @ ys) = transfers xs @ transfers ys"
  "transfers (header_logs e res sent) = []"
  "transfers (Raise x # evs) = transfers evs" "transfers (Log lvl msg # evs) = transfers evs"
  "transfers (Exchange q out # evs) = (if files q \<noteq> None then q # transfers evs else transfers evs)"
  by (simp_all add: transfers_def)

text \<open>What a run of each phase of \<open>upload\<close> leaves behind.\<close>

lemma upload_stage_run:
  assumes "upload_stage e dmn l p v b fd dt ds h sz deps at ch c = (r, c1)"
  shows "session_headers c1 = session_headers c \<and> domain c1 = domain c \<and>
         (\<exists>evs. events c1 = events c @ evs \<and> transfers evs = [] \<and>
            (case r of
               Inl x \<Rightarrow> length (exchanges evs) \<le> 1
             | Inr (obj, fd1) \<Rightarrow>
                 (\<exists>q res. exchanges evs = [(q, Inr res)] \<and> json res = Some obj \<and>
                    status_code res = 200 \<and>
                    url q = dmn @ ''/stage/'' @ l @ ''/'' @ p @ ''/'' @ v @ ''/'' @ quote e b)))"
  using assms
  by (auto simp: upload_stage_def step Let_def split_def lift_def res_json_def new_request_def
        classify_success_iff
        split: sum.splits option.splits via.splits)

text \<open>
  The request that carries the file goes to the URL the stage response gave,
  through the session exactly when that URL begins with the base endpoint, and
  only when the caller gave no MD5.
\<close>

lemma stopped:
  assumes "r = Inl x" and "c1 = c"
  shows "session_headers c1 = session_headers c \<and> domain c1 = domain c \<and>
         (\<exists>evs. events c1 = events c @ evs \<and>
            ((exchanges evs = [] \<and> (\<exists>x. r = Inl x)) \<or> P evs))"
  using assms by (intro conjI exI[of _ "[]"]) simp_all

lemma upload_transfer_run:
  assumes "upload_transfer e dmn vfy b fd1 md5 sz obj c = (r, c1)"
  shows "session_headers c1 = session_headers c \<and> domain c1 = domain c \<and>
         (\<exists>evs. events c1 = events c @ evs \<and>
            ((exchanges evs = [] \<and> (\<exists>x. r = Inl x)) \<or>
             (\<exists>q out. exchanges evs = [(q, out)] \<and> transfers evs = [q] \<and>
                r = (case out of Inl x \<Rightarrow> Inl (RequestException x) | Inr s3res \<Rightarrow> Inr s3res) \<and>
                md5 = None \<and>
                getitem obj ''post_url'' = Inr (JStr (url q)) \<and>
                (via q = Session \<longleftrightarrow> startswith (url q) dmn) \<and>
                req_headers q = (if startswith (url q) dmn
                                 then session_headers c else Map.empty))))"
proof (cases "getitem obj ''post_url''")
  case (Inl x)
  with assms have "r = Inl x" "c1 = c" by (auto simp: upload_transfer_def step)
  then show ?thesis by (rule stopped)
next
  case url: (Inr s3url)
  show ?thesis
  proof (cases "getitem obj ''form_data''")
    case (Inl x)
    with assms url have "r = Inl x" "c1 = c" by (auto simp: upload_transfer_def step)
    then show ?thesis by (rule stopped)
  next
    case form: (Inr s3data)
    obtain b64md5 n fd2 where ms: "md5_and_size e fd1 md5 sz = (b64md5, n, fd2)"
      by (cases "md5_and_size e fd1 md5 sz") auto
    show ?thesis
    proof (cases "inject_fields s3data n b64md5")
      case (Inl x)
      with assms url form ms have "r = Inl x" "c1 = c" by (auto simp: upload_transfer_def step)
      then show ?thesis by (rule stopped)
    next
      case inj: (Inr s3data2)
      have none: "md5 = None"
        using ms inj
        by (auto simp: md5_and_size_def inject_fields_def Let_def split_def
              split: if_splits sum.splits option.splits)
      show ?thesis
      proof (cases "request_method_for s3url dmn")
        case (Inl x)
        with assms url form ms inj have "r = Inl x" "c1 = c"
          by (auto simp: upload_transfer_def step)
        then show ?thesis by (rule stopped)
      next
        case (Inr route)
        then obtain u where u: "s3url = JStr u"
          and route: "route = (if startswith u dmn then Session else Requests, u)"
          by (cases s3url) auto
        show ?thesis
        proof (cases "file_size fd2")
          case (Inl x)
          with assms url form ms inj Inr have "r = Inl x" "c1 = c"
            by (auto simp: upload_transfer_def step split_def)
          then show ?thesis by (rule stopped)
        next
          case total: (Inr total)
          let ?q = "(new_request (fst route) ''POST'' u)
                      \<lparr>data := Form s3data2,
                       files := Some (b, drop (pos fd2) (content fd2)),
                       verify := Some vfy,
                       timeout := Some (10 * 60 * 60)\<rparr>"
          let ?q' = "prepare c ?q"
          from assms url form ms inj Inr total route
          have run: "send e ?q c = (r, c1)"
            by (simp add: upload_transfer_def step split_def)
          have r: "r = (case transport e ?q' of Inl x \<Rightarrow> Inl (RequestException x)
                             | Inr res \<Rightarrow> Inr res)"
            using run unfolding send_run by simp
          have c1: "c1 = c\<lparr>events := events c @ [Exchange ?q' (transport e ?q')]\<rparr>"
            using run unfolding send_run by simp
          have q1: "url ?q' = u" "files ?q' \<noteq> None"
            "via ?q' = (if startswith u dmn then Session else Requests)"
            "req_headers ?q' = (if startswith u dmn then session_headers c else Map.empty)"
            by (simp_all add: route new_request_def)
          have ex: "exchanges [Exchange ?q' (transport e ?q')] = [(?q', transport e ?q')]"
            and tr: "transfers [Exchange ?q' (transport e ?q')] = [?q']"
            using q1(2) by simp_all
          show ?thesis
            apply (intro conjI exI[of _ "[Exchange ?q' (transport e ?q')]"] disjI2
                  exI[of _ ?q'] exI[of _ "transport e ?q'"])
            subgoal using c1 by simp
            subgoal using c1 by simp
            subgoal using c1 by simp
            subgoal by (rule ex)
            subgoal by (rule tr)
            subgoal by (rule r)
            subgoal by (rule none)
            subgoal using url u q1(1) by simp
            subgoal using q1(1,3) by simp
            subgoal using q1(1,4) by simp
            done
        qed
      qed
    qed
  qed
qed

lemma classify_failure: "classify e res al = Inl x \<Longrightarrow> status_code res \<notin> set al"
  by (auto simp: classify_def split: if_splits)

lemma upload_commit_run:
  assumes "upload_commit e dmn l p v b obj c = (r, c1)"
  shows "\<exists>evs. events c1 = events c @ evs \<and> transfers evs = [] \<and>
           ((exchanges evs = [] \<and> (\<exists>x. r = Inl x)) \<or>
            (\<exists>q out. exchanges evs = [(q, out)] \<and>
               url q = dmn @ ''/commit/'' @ l @ ''/'' @ p @ ''/'' @ v @ ''/'' @ quote e b \<and>
               (\<forall>res. out = Inr res \<and> status_code res = 200 \<longrightarrow> r = res_json res)))"
proof (cases "getitem obj ''dist_id''")
  case (Inl x)
  with assms have "r = Inl x" "c1 = c" by (auto simp: upload_commit_def step Let_def)
  then show ?thesis by (intro exI[of _ "[]"]) simp
next
  case (Inr dist_id)
  with assms show ?thesis
    by (auto simp: upload_commit_def step Let_def split_def lift_def new_request_def
          split: sum.splits dest: classify_failure)
qed

lemma storage_failure_run:
  assumes "storage_failure s3res c = (r, c1)"
  shows "\<exists>evs. events c1 = events c @ evs \<and> transfers evs = [] \<and> exchanges evs = [] \<and>
           (\<exists>x. r = Inl x)"
  using assms
  by (auto simp: storage_failure_def logger_def Let_def split: option.splits)

lemma and_then_cases:
  assumes "and_then m f c = (r, c')"
  obtains (stop) x where "m c = (Inl x, c')" "r = Inl x"
        | (go) a c1 where "m c = (Inr a, c1)" "f a c1 = (r, c')"
  using assms by (cases "m c") (auto simp: and_then_def split: sum.splits)

lemma new_events_eq: "events c' = events c @ evs \<Longrightarrow> new_events c c' = evs"
  by (simp add: new_events_def)


text \<open>
  The exchanges of one call of \<open>upload\<close>, in order. Either the call raised with
  at most the stage request sent and no transfer. Or the stage request was
  answered 200 with a body that decodes, the transfer was sent, and the call
  raised with these two exchanges. Or, after these two, the transfer answered
  201, the commit request was sent.
\<close>

lemma upload_run:
  assumes run: "upload e l p v b fd dt ds m h sz deps at ch c = (r, c')"
  obtains
    (unsent) x where "length (exchanges (new_events c c')) \<le> 1"
      "transfers (new_events c c') = []" "r = Inl x"
  | (sent) qs sres obj q out x where
      "json sres = Some obj" "status_code sres = 200"
      "url qs = domain c @ ''/stage/'' @ l @ ''/'' @ p @ ''/'' @ v @ ''/'' @ quote e b"
      "m = None" "getitem obj ''post_url'' = Inr (JStr (url q))"
      "via q = Session \<longleftrightarrow> startswith (url q) (domain c)"
      "req_headers q = (if startswith (url q) (domain c) then session_headers c else Map.empty)"
      "transfers (new_events c c') = [q]"
      "exchanges (new_events c c') = [(qs, Inr sres), (q, out)]" "r = Inl x"
  | (committed) qs sres obj q s3res q' out' where
      "json sres = Some obj" "status_code sres = 200"
      "url qs = domain c @ ''/stage/'' @ l @ ''/'' @ p @ ''/'' @ v @ ''/'' @ quote e b"
      "m = None" "getitem obj ''post_url'' = Inr (JStr (url q))"
      "via q = Session \<longleftrightarrow> startswith (url q) (domain c)"
      "req_headers q = (if startswith (url q) (domain c) then session_headers c else Map.empty)"
      "transfers (new_events c c') = [q]"
      "status_code s3res = 201"
      "exchanges (new_events c c') = [(qs, Inr sres), (q, Inr s3res), (q', out')]"
      "url q' = domain c @ ''/commit/'' @ l @ ''/'' @ p @ ''/'' @ v @ ''/'' @ quote e b"
      "\<And>res. out' = Inr res \<Longrightarrow> status_code res = 200 \<Longrightarrow> r = res_json res"
  using run unfolding upload_def
proof (cases rule: and_then_cases)
  case (stop x)
  from upload_stage_run[OF stop(1)] obtain evs where "events c' = events c @ evs"
    "transfers evs = []" "length (exchanges evs) \<le> 1" by auto
  with stop(2) show ?thesis by (intro unsent[of x]) (simp_all add: new_events_eq)
next
  case (go a c1)
  obtain obj fd1 where a: "a = (obj, fd1)" by (cases a)
  from upload_stage_run[OF go(1)] a obtain evs0 qs sres where
    h1: "session_headers c1 = session_headers c"
    and ev0: "events c1 = events c @ evs0" and tr0: "transfers evs0 = []"
    and ex0: "exchanges evs0 = [(qs, Inr sres)]" and js: "json sres = Some obj"
    and st: "status_code sres = 200"
    and uq: "url qs = domain c @ ''/stage/'' @ l @ ''/'' @ p @ ''/'' @ v @ ''/'' @ quote e b"
    by auto
  from go(2) a
  have rest: "and_then (upload_transfer e (domain c) (session_verify c) b fd1 m sz obj)
      (\<lambda>s3res. if status_code s3res \<noteq> 201 then storage_failure s3res
               else upload_commit e (domain c) l p v b obj) c1 = (r, c')" by simp
  from rest show ?thesis
  proof (cases rule: and_then_cases)
    case (stop x)
    from upload_transfer_run[OF stop(1)] obtain evs1 where
      ev1: "events c' = events c1 @ evs1"
      and alt: "exchanges evs1 = [] \<or>
         (\<exists>q out. exchanges evs1 = [(q, out)] \<and> transfers evs1 = [q] \<and> m = None \<and>
            getitem obj ''post_url'' = Inr (JStr (url q)) \<and>
            (via q = Session \<longleftrightarrow> startswith (url q) (domain c)) \<and>
            req_headers q = (if startswith (url q) (domain c)
                             then session_headers c1 else Map.empty))"
      by blast
    from ev0 ev1 have ne: "new_events c c' = evs0 @ evs1" by (simp add: new_events_eq)
    from alt show ?thesis
    proof
      assume empty: "exchanges evs1 = []"
      then have "transfers evs1 = []" by (simp add: transfers_def)
      with tr0 ex0 empty stop(2) show ?thesis by (intro unsent[of x]) (simp_all add: ne)
    next
      assume "\<exists>q out. exchanges evs1 = [(q, out)] \<and> transfers evs1 = [q] \<and> m = None \<and>
            getitem obj ''post_url'' = Inr (JStr (url q)) \<and>
            (via q = Session \<longleftrightarrow> startswith (url q) (domain c)) \<and>
            req_headers q = (if startswith (url q) (domain c)
                             then session_headers c1 else Map.empty)"
      then obtain q out where q: "exchanges evs1 = [(q, out)]" "transfers evs1 = [q]" "m = None"
        "getitem obj ''post_url'' = Inr (JStr (url q))"
        "via q = Session \<longleftrightarrow> startswith (url q) (domain c)"
        "req_headers q = (if startswith (url q) (domain c) then session_headers c1 else Map.empty)"
        by blast
      show ?thesis
        using js st uq q tr0 ex0 stop(2) h1
        by (intro sent[of sres obj qs q out x]) (simp_all add: ne)
    qed
  next
    case (go s3res c2)
    from upload_transfer_run[OF go(1)] obtain evs1 q out where
      ev1: "events c2 = events c1 @ evs1"
      and q0: "exchanges evs1 = [(q, out)]"
        "Inr s3res = (case out of Inl x \<Rightarrow> Inl (RequestException x) | Inr s \<Rightarrow> Inr s)"
      and q': "transfers evs1 = [q]" "m = None"
        "getitem obj ''post_url'' = Inr (JStr (url q))"
        "via q = Session \<longleftrightarrow> startswith (url q) (domain c)"
        "req_headers q = (if startswith (url q) (domain c) then session_headers c1 else Map.empty)"
      by blast
    from q0(2) have "out = Inr s3res" by (cases out) simp_all
    with q0(1) have ex1: "exchanges evs1 = [(q, Inr s3res)]" by simp
    show ?thesis
    proof (cases "status_code s3res = 201")
      case False
      with go(2) have "storage_failure s3res c2 = (r, c')" by simp
      from storage_failure_run[OF this] obtain evs2 x where
        "events c' = events c2 @ evs2" "transfers evs2 = []" "exchanges evs2 = []" "r = Inl x"
        by blast
      then show ?thesis
        using js st uq q' tr0 ex0 ex1 h1 ev0 ev1
        by (intro sent[of sres obj qs q "Inr s3res" x]) (simp_all add: new_events_eq)
    next
      case True
      with go(2) have "upload_commit e (domain c) l p v b obj c2 = (r, c')" by simp
      from upload_commit_run[OF this] obtain evs2 where
        ev2: "events c' = events c2 @ evs2" and tr2: "transfers evs2 = []"
        and alt: "(exchanges evs2 = [] \<and> (\<exists>x. r = Inl x)) \<or>
            (\<exists>q' out'. exchanges evs2 = [(q', out')] \<and>
               url q' = domain c @ ''/commit/'' @ l @ ''/'' @ p @ ''/'' @ v @ ''/'' @ quote e b \<and>
               (\<forall>res. out' = Inr res \<and> status_code res = 200 \<longrightarrow> r = res_json res))"
        by blast
      from ev0 ev1 ev2 have ne: "new_events c c' = evs0 @ evs1 @ evs2"
        by (simp add: new_events_eq)
      from alt show ?thesis
      proof
        assume "exchanges evs2 = [] \<and> (\<exists>x. r = Inl x)"
        then obtain x where "exchanges evs2 = []" "r = Inl x" by blast
        then show ?thesis
          using js st uq q' tr0 tr2 ex0 ex1 h1
          by (intro sent[of sres obj qs q "Inr s3res" x]) (simp_all add: ne)
      next
        assume "\<exists>q' out'. exchanges evs2 = [(q', out')] \<and>
               url q' = domain c @ ''/commit/'' @ l @ ''/'' @ p @ ''/'' @ v @ ''/'' @ quote e b \<and>
               (\<forall>res. out' = Inr res \<and> status_code res = 200 \<longrightarrow> r = res_json res)"
        then obtain q2 out2 where "exchanges evs2 = [(q2, out2)]"
          "url q2 = domain c @ ''/commit/'' @ l @ ''/'' @ p @ ''/'' @ v @ ''/'' @ quote e b"
          "\<forall>res. out2 = Inr res \<and> status_code res = 200 \<longrightarrow> r = res_json res"
          by blast
        then show ?thesis
          using js st uq q' tr0 tr2 ex0 ex1 h1 True
          by (intro committed[of sres obj qs q s3res q2 out2]) (simp_all add: ne)
      qed
    qed
  qed
qed


text \<open>
  C3 (as amended). The request that carries the file goes to the storage URL of
  the stage response; it is sent through the session, with the session's
  headers, exactly when that URL, as a string, begins with the base endpoint,
  and otherwise with \<open>requests.post\<close> and none of the session's headers.
\<close>

theorem upload_routing:
  assumes "upload e l p v b fd dt ds m h sz deps at ch c = (r, c')"
    and "q \<in> set (transfers (new_events c c'))"
  shows "(via q = Session \<longleftrightarrow> startswith (url q) (domain c)) \<and>
         req_headers q = (if startswith (url q) (domain c) then session_headers c else Map.empty) \<and>
         (\<exists>qs sres obj. hd (exchanges (new_events c c')) = (qs, Inr sres) \<and>
            json sres = Some obj \<and> getitem obj ''post_url'' = Inr (JStr (url q)))"
  using assms(1)
proof (cases rule: upload_run)
  case (unsent x)
  with assms(2) show ?thesis by simp
next
  case (sent qs sres obj q0 out x)
  with assms(2) show ?thesis by auto
next
  case (committed qs sres obj q0 s3res q' out')
  with assms(2) show ?thesis by auto
qed

text \<open>With an MD5 from the caller no transfer is ever sent: the call raises before.\<close>

lemma upload_md5_given:
  assumes "upload e l p v b fd dt ds (Some md5) h sz deps at ch c = (r, c')"
  shows "transfers (new_events c c') = [] \<and> (\<exists>x. r = Inl x)"
  using assms by (cases rule: upload_run) auto

subsection \<open>Concrete runs\<close>

lemmas upload_defs = upload_def upload_stage_def upload_transfer_def upload_commit_def
  md5_and_size_def inject_fields_def file_size_def storage_failure_def find_child_def

lemma endswith_char: "endswith s [ch] \<longleftrightarrow> s \<noteq> [] \<and> last s = ch"
  by (cases s rule: rev_cases) (auto simp: endswith_def)

text \<open>
  C9 (as amended). The stored base endpoint always begins with \<open>http://\<close> or
  \<open>https://\<close>. The constructor removes one trailing \<open>/\<close> from its argument and no
  more: the stored endpoint ends with \<open>/\<close> exactly when the argument without its
  last \<open>/\<close> is empty or still ends with \<open>/\<close>. No sequence of operations changes
  the stored endpoint.
\<close>

theorem init_domain:
  "(startswith (domain (init e tok dmn vfy)) ''http://''
      \<or> startswith (domain (init e tok dmn vfy)) ''https://'') \<and>
   (endswith (domain (init e tok dmn vfy)) ''/'' \<longleftrightarrow>
      (if endswith dmn ''/'' then butlast dmn else dmn) = [] \<or>
      endswith (if endswith dmn ''/'' then butlast dmn else dmn) ''/'') \<and>
   domain (perform_all e' calls (init e tok dmn vfy)) = domain (init e tok dmn vfy)"
proof -
  let ?d1 = "if endswith dmn ''/'' then butlast dmn else dmn"
  have d: "domain (init e tok dmn vfy) =
             (if startswith ?d1 ''http://'' \<or> startswith ?d1 ''https://''
              then ?d1 else ''https://'' @ ?d1)"
    by (simp add: init_def Let_def)
  have nonempty: "?d1 \<noteq> []" if "startswith ?d1 ''http://'' \<or> startswith ?d1 ''https://''"
    using that by (auto simp: startswith_def)
  have scheme: "startswith (domain (init e tok dmn vfy)) ''http://''
      \<or> startswith (domain (init e tok dmn vfy)) ''https://''"
    unfolding d by (simp add: startswith_def)
  have slash: "endswith (domain (init e tok dmn vfy)) ''/'' \<longleftrightarrow> ?d1 = [] \<or> endswith ?d1 ''/''"
    unfolding d using nonempty by (auto simp: endswith_char)
  from scheme slash domain_perform_all show ?thesis by blast
qed

theorem init_domain_witness:
  "domain (init (example_env (always (reply 200 None))) None ''api.anaconda.org/'' True)
     = ''https://api.anaconda.org'' \<and>
   \<not> endswith (domain (init (example_env (always (reply 200 None))) None
                          ''api.anaconda.org/'' True)) ''/'' \<and>
   domain (perform_all (example_env (always (reply 404 None))) [Package ''u'' ''p'', CheckServer]
             (init (example_env (always (reply 200 None))) None ''api.anaconda.org/'' True))
     = ''https://api.anaconda.org''"
  using init_domain[of "example_env (always (reply 200 None))" None "''api.anaconda.org/''" True
          "example_env (always (reply 404 None))" "[Package ''u'' ''p'', CheckServer]"]
  by (simp add: example_defs)

text \<open>
  Against C9 with \<open>never ends with a trailing separator\<close>: of two trailing
  separators the second stays.
\<close>

theorem init_second_slash_stays:
  "endswith (domain (init (example_env (always (reply 200 None))) None
                       ''api.anaconda.org//'' True)) ''/''"
  by (simp add: example_defs)

lemmas eval_defs = run_defs example_defs upload_defs default_msg_def ErrCls_def str_int_def
  try_except_def new_events_def statuses_def transfers_def header_def Let_def

text \<open>
  Against C8 with \<open>no operation catches the typed error and substitutes a success
  value\<close>: on a 404, classification raises \<open>NotFound\<close> and \<open>authentication_type\<close>
  returns \<open>password\<close>.
\<close>

theorem authentication_type_swallows_not_found:
  "fst (authentication_type (example_env (always (reply 404 None))) example_client)
     = Inr (JStr ''password'') \<and>
   last (events (snd (authentication_type (example_env (always (reply 404 None))) example_client)))
     = Raise not_found_error"
  by (simp add: authentication_type_def eval_defs)

theorem classified_error_surfaced_witness:
  "Raise not_found_error
     \<in> set (new_events example_client
              (snd (perform (example_env (always (reply 404 None))) (RemovePackage ''u'' ''p'')
                      example_client))) \<and>
   fst (perform (example_env (always (reply 404 None))) (RemovePackage ''u'' ''p'') example_client)
     = Inl not_found_error \<and>
   fst (perform (example_env (always (reply 404 None))) AuthenticationType example_client)
     = Inr (RJson (JStr ''password'')) \<and>
   fst (perform (example_env (always (reply 404 None))) CheckServer example_client)
     = Inl (ApiError ServerError (JStr server_not_found) None (Some not_found_error)) \<and>
   fst (check_server (example_env unreachable) example_client)
     = Inl (ApiError ServerError (JStr server_not_found) None
              (Some (RequestException ''connection refused'')))"
proof -
  let ?e = "example_env (always (reply 404 None))"
  have r1: "Raise not_found_error
     \<in> set (new_events example_client (snd (perform ?e (RemovePackage ''u'' ''p'') example_client)))"
    by (simp add: remove_package_def eval_defs)
  have r2: "Raise not_found_error
     \<in> set (new_events example_client (snd (perform ?e AuthenticationType example_client)))"
    by (simp add: authentication_type_def eval_defs)
  have r3: "Raise not_found_error
     \<in> set (new_events example_client (snd (perform ?e CheckServer example_client)))"
    by (simp add: check_server_def eval_defs)
  have down: "transport (example_env unreachable)
        ((new_request Session ''HEAD'' (domain example_client))
           \<lparr>req_headers := session_headers example_client\<rparr>) = Inl ''connection refused''"
    by (simp add: example_env_def unreachable_def)
  from r1 classified_error_surfaced[of ?e "RemovePackage ''u'' ''p''" example_client
      "fst (perform ?e (RemovePackage ''u'' ''p'') example_client)"
      "snd (perform ?e (RemovePackage ''u'' ''p'') example_client)" not_found_error]
  have a: "fst (perform ?e (RemovePackage ''u'' ''p'') example_client) = Inl not_found_error"
    by simp
  from r2 classified_error_surfaced[of ?e AuthenticationType example_client
      "fst (perform ?e AuthenticationType example_client)"
      "snd (perform ?e AuthenticationType example_client)" not_found_error]
  have b: "fst (perform ?e AuthenticationType example_client) = Inr (RJson (JStr ''password''))"
    by (simp add: not_found_error_def)
  from r3 classified_error_surfaced[of ?e CheckServer example_client
      "fst (perform ?e CheckServer example_client)"
      "snd (perform ?e CheckServer example_client)" not_found_error]
  have c: "fst (perform ?e CheckServer example_client)
     = Inl (ApiError ServerError (JStr server_not_found) None (Some not_found_error))"
    by (simp add: not_found_error_def)
  from down classified_error_surfaced[of "example_env unreachable" CheckServer example_client
      "fst (perform (example_env unreachable) CheckServer example_client)"
      "snd (perform (example_env unreachable) CheckServer example_client)" not_found_error
      "''connection refused''"]
  have d: "fst (check_server (example_env unreachable) example_client)
     = Inl (ApiError ServerError (JStr server_not_found) None
              (Some (RequestException ''connection refused'')))"
    by simp
  from r1 a b c d show ?thesis by simp
qed



theorem upload_routing_witness:
  "transfers (new_events example_client
      (snd (example_upload (upload_server ''https://s3.example/b'' (reply 201 None)
                              (reply 200 (Some (JStr ''ok'')))) None))) \<noteq> [] \<and>
   \<not> startswith ''https://s3.example/b'' (domain example_client) \<and>
   map url (transfers (new_events example_client
      (snd (example_upload (upload_server ''https://s3.example/b'' (reply 201 None)
                              (reply 200 (Some (JStr ''ok'')))) None))))
     = [''https://s3.example/b''] \<and>
   map via (transfers (new_events example_client
      (snd (example_upload (upload_server ''https://s3.example/b'' (reply 201 None)
                              (reply 200 (Some (JStr ''ok'')))) None))))
     = [Requests] \<and>
   map (header ''Authorization'') (transfers (new_events example_client
      (snd (example_upload (upload_server ''https://s3.example/b'' (reply 201 None)
                              (reply 200 (Some (JStr ''ok'')))) None))))
     = [None]"
proof -
  let ?run = "example_upload (upload_server ''https://s3.example/b'' (reply 201 None)
                                (reply 200 (Some (JStr ''ok'')))) None"
  let ?ts = "transfers (new_events example_client (snd ?run))"
  have one: "length ?ts = 1" and u: "map url ?ts = [''https://s3.example/b'']"
    by (simp_all add: eval_defs)
  then obtain q where ts: "?ts = [q]" and uq: "url q = ''https://s3.example/b''"
    by (cases ?ts) auto
  have far: "\<not> startswith ''https://s3.example/b'' (domain example_client)"
    by (simp add: example_defs)
  have "q \<in> set ?ts" using ts by simp
  with upload_routing[of "example_env (upload_server ''https://s3.example/b''
              (reply 201 None) (reply 200 (Some (JStr ''ok''))))" "''u''" "''p''" "''1.0''"
            "''p.tar''" example_file "AsStr ''conda''" "[]" None None None JNull JNull
            "JList [JStr ''main'']" example_client "fst ?run" "snd ?run" q] uq far
  have "via q \<noteq> Session" "req_headers q = Map.empty"
    unfolding example_upload_def by (simp_all only: prod.collapse) simp_all
  then have "via q = Requests" "header ''Authorization'' q = None"
    by (cases "via q"; simp add: header_def)+
  with ts uq far show ?thesis by simp
qed

text \<open>
  Against C3 with origins in place of string prefixes: a storage URL on another
  host whose text begins with the base endpoint is sent through the session,
  with the session's \<open>Authorization\<close> header.
\<close>

theorem upload_lookalike_host:
  "\<not> same_origin ''https://api.anaconda.org.evil.example/b'' (domain example_client) \<and>
   map url (transfers (new_events example_client
      (snd (example_upload (upload_server ''https://api.anaconda.org.evil.example/b''
                              (reply 201 None) (reply 200 (Some (JStr ''ok'')))) None))))
     = [''https://api.anaconda.org.evil.example/b''] \<and>
   map via (transfers (new_events example_client
      (snd (example_upload (upload_server ''https://api.anaconda.org.evil.example/b''
                              (reply 201 None) (reply 200 (Some (JStr ''ok'')))) None))))
     = [Session] \<and>
   map (header ''Authorization'') (transfers (new_events example_client
      (snd (example_upload (upload_server ''https://api.anaconda.org.evil.example/b''
                              (reply 201 None) (reply 200 (Some (JStr ''ok'')))) None))))
     = [Some ''token s3cr3t'']"
  by (simp add: eval_defs same_origin_def origin_def default_port_def)

text \<open>
  C4. The form-field map is to receive \<open>Content-MD5\<close> from the caller's \<open>md5\<close> when
  the caller gives one. The code binds \<open>b64md5\<close> only where it hashes the stream
  itself: with \<open>md5\<close> given, the assignment of line 587 raises
  \<open>UnboundLocalError\<close> after staging, and no transfer is sent.
\<close>

theorem upload_md5_given_unbound:
  "fst (example_upload (upload_server ''https://s3.example/b'' (reply 201 None)
                          (reply 200 (Some (JStr ''ok'')))) (Some ''Dw==''))
     = Inl (UnboundLocalError ''b64md5'') \<and>
   statuses (new_events example_client
      (snd (example_upload (upload_server ''https://s3.example/b'' (reply 201 None)
                              (reply 200 (Some (JStr ''ok'')))) (Some ''Dw==''))))
     = [Some 200]"
  by (simp add: eval_defs)

text \<open>
  C7. A storage response with a status other than 201 is to end the upload in
  an API error that carries the status, whatever the body. The code parses the
  body as XML first, outside any \<open>try\<close>: for a 403 whose body is not XML the call
  raises \<open>ParseError\<close>.
\<close>

theorem upload_storage_error_not_xml:
  "fst (example_upload (upload_server ''https://s3.example/b'' (reply 403 None)
                          (reply 200 (Some (JStr ''ok'')))) None) = Inl ParseError"
  by (simp add: eval_defs)

text \<open>When the body is XML with a \<open>Code\<close> child, the API error carries the status.\<close>

lemma storage_failure_xml:
  assumes "xml s3res = Some el" and "find_child el ''Code'' = Some code"
  shows "fst (storage_failure s3res c) =
           Inl (ApiError BinstarError
                  (JStr (''Error uploading package!'' @
                         (if etext code = Some ''InvalidDigest''
                          then '' The Content-MD5 or checksum value is not valid.'' else [])))
                  (Some (status_code s3res)) None)"
  using assms by (simp add: storage_failure_def Let_def)

lemma storage_failure_not_xml:
  "xml s3res = None \<Longrightarrow> fst (storage_failure s3res c) = Inl ParseError"
  "xml s3res = Some el \<Longrightarrow> find_child el ''Code'' = None
     \<Longrightarrow> fst (storage_failure s3res c) = Inl (AttributeError ''NoneType object has no attribute text'')"
  by (simp_all add: storage_failure_def Let_def)

text \<open>
  C5. \<open>download\<close> is to return the response for 200, \<open>None\<close> for 304, the response
  of one plain \<open>requests.get\<close> to the \<open>location\<close> header for 302, and to raise the
  API error of the classification for any other status. For the three allowed
  statuses the code does so (lemma \<open>download_allowed\<close>); for another status it
  raises what \<open>_check_response\<close> raises, which for a 404 with the JSON list
  \<open>[]\<close> as body is \<open>AttributeError\<close>.
\<close>

theorem download_list_body:
  "fst (download (example_env (always (reply 404 (Some (JList []))))) ''u'' ''p'' ''1.0''
          ''p.tar'' None example_client)
     = Inl (AttributeError ''list object has no attribute get'')"
  by (simp add: download_def eval_defs)

lemma download_allowed:
  assumes first: "transport e (prepare c
                    ((new_request Session ''GET''
                        (domain c @ ''/download/'' @ l @ ''/'' @ p @ ''/'' @ v @ ''/'' @ b))
                       \<lparr>req_headers := (if truthy m then [''ETag'' \<mapsto> the m] else Map.empty),
                         allow_redirects := Some False\<rparr>)) = Inr res"
  shows "status_code res = 200 \<Longrightarrow> fst (download e l p v b m c) = Inr (Some res)"
    and "status_code res = 304 \<Longrightarrow> fst (download e l p v b m c) = Inr None"
    and "status_code res = 302 \<Longrightarrow> headers res ''location'' = Some u \<Longrightarrow>
         transport e ((new_request Requests ''GET'' u)\<lparr>stream := True\<rparr>) = Inr res2 \<Longrightarrow>
         fst (download e l p v b m c) = Inr (Some res2) \<and>
         map fst (tl (exchanges (new_events c (snd (download e l p v b m c)))))
           = [(new_request Requests ''GET'' u)\<lparr>stream := True\<rparr>]"
    and "status_code res \<notin> {200, 302, 304} \<Longrightarrow>
         \<exists>x. classify e res [200, 302, 304] = Inl x \<and> fst (download e l p v b m c) = Inl x"
  using first
  by (auto simp: download_def step Let_def lift_def classify_allowed send_run prepare_def
        new_request_def new_events_def classify_success_iff
      split: sum.splits)

text \<open>
  C10. The five operations are to succeed on 201 alone and to raise the generic
  API error on 200. They do succeed exactly on 201 (lemma \<open>only_201\<close>); on a 200
  whose body is the JSON list \<open>[]\<close> the classification of the response raises
  \<open>AttributeError\<close> where the generic API error is due.
\<close>

theorem remove_package_200_list_body:
  "fst (remove_package (example_env (always (reply 200 (Some (JList []))))) ''u'' ''p''
          example_client)
     = Inl (AttributeError ''list object has no attribute get'')"
  by (simp add: remove_package_def eval_defs)

lemma only_201_run:
  "fst (and_then (send e q) (\<lambda>res. check_response e res [201]) c) = Inr () \<longleftrightarrow>
     (\<exists>res. transport e (prepare c q) = Inr res \<and> status_code res = 201)"
  by (auto simp: step check_response_eq classify_success_iff split: sum.splits
        dest: classify_failure)

lemma only_201:
  "fst (remove_package e l p c) = Inr () \<longleftrightarrow>
     (\<exists>res. transport e (prepare c (new_request Session ''DELETE''
                (domain c @ ''/package/'' @ l @ ''/'' @ p))) = Inr res \<and> status_code res = 201)"
  "fst (remove_release e l p v c) = Inr () \<longleftrightarrow>
     (\<exists>res. transport e (prepare c (new_request Session ''DELETE''
                (domain c @ ''/release/'' @ l @ ''/'' @ p @ ''/'' @ v))) = Inr res \<and>
            status_code res = 201)"
  "fst (package_add_collaborator e l p k c) = Inr () \<longleftrightarrow>
     (\<exists>res. transport e (prepare c (new_request Session ''PUT''
                (domain c @ ''/packages/'' @ l @ ''/'' @ p @ ''/collaborators/'' @ k))) = Inr res \<and>
            status_code res = 201)"
  "fst (package_remove_collaborator e l p k c) = Inr () \<longleftrightarrow>
     (\<exists>res. transport e (prepare c (new_request Session ''DELETE''
                (domain c @ ''/packages/'' @ l @ ''/'' @ p @ ''/collaborators/'' @ k))) = Inr res \<and>
            status_code res = 201)"
  "fst (remove_authentication e ao go c) = Inr () \<longleftrightarrow>
     (\<exists>res. transport e (prepare c (new_request Session ''DELETE''
                (if truthy ao then
                   (if truthy go then
                      domain c @ ''/authentications/org/'' @ str_opt go @ ''/name/'' @ str_opt ao
                    else domain c @ ''/authentications/name/'' @ str_opt ao)
                 else domain c @ ''/authentications''))) = Inr res \<and> status_code res = 201)"
  unfolding remove_package_def remove_release_def package_add_collaborator_def
    package_remove_collaborator_def remove_authentication_def Let_def
  by (rule only_201_run)+

text \<open>A 200 whose body does not decode, or decodes to an object, gives the generic error.\<close>

lemma classify_200_for_201:
  assumes "status_code res = 200" and "json res = None \<or> (\<exists>kvs. json res = Some (JDict kvs))"
  shows "\<exists>msg. classify e res [201] = Inl (ApiError BinstarError msg (Some 200) None)"
  using classify_disallowed[of res "[201]" e] assms by (simp add: ErrCls_def)

text \<open>The mechanism of C4: with an MD5 from the caller, \<open>b64md5\<close> stays unbound.\<close>

lemma md5_given_unbound:
  "fst (md5_and_size e fd (Some md5) sz) = None"
  "inject_fields (JDict kvs) n None = Inl (UnboundLocalError ''b64md5'')"
  by (simp_all add: md5_and_size_def inject_fields_def Let_def)

lemma md5_hashed_fields:
  assumes "compute_hash e MD5 fd sz = ((hex, b64, n), fd')"
  shows "md5_and_size e fd None sz = (Some b64, Some n, fd')"
    and "inject_fields (JDict kvs) (Some n) (Some b64) =
           Inr (JDict (dict_set (dict_set kvs ''Content-Length'' (JInt n))
                          ''Content-MD5'' (JStr b64)))"
  using assms by (simp_all add: md5_and_size_def inject_fields_def Let_def)

end
